theory Spec2Isabelle
  imports Complex_Main "HOL-Library.List_Lexorder" "HOL-Library.Char_ord"
begin

section \<open>Python values and errors\<close>

text \<open>
  The records of train.py are what \<^verbatim>\<open>json.load\<close> returns: None, bool, int, float, str,
  list and dict. A dict is an association list read with \<open>map_of\<close>. Python floats are
  modelled as reals: the rounding of float arithmetic and the non-finite floats are outside
  this model. Python ints are unbounded integers; an int that is too large for a float
  raises OverflowError where the code converts it. A str is the list of its characters,
  compared and sorted character by character as Python does by code point.
\<close>

datatype json =
    JNull
  | JBool bool
  | JInt int
  | JFloat real
  | JStr string
  | JList "json list"
  | JObj "(string \<times> json) list"

datatype py_error = KeyError | TypeError | ValueError | AttributeError | IndexError
  | RuntimeError | ZeroDivisionError | OverflowError | Exception

type_synonym 'a result = "py_error + 'a"

definition bindE :: "'a result \<Rightarrow> ('a \<Rightarrow> 'b result) \<Rightarrow> 'b result" where
  "bindE m f = (case m of Inl e \<Rightarrow> Inl e | Inr v \<Rightarrow> f v)"

text \<open>Evaluating a Python list display left to right: the first raise wins.\<close>

fun sequenceE :: "'a result list \<Rightarrow> 'a list result" where
  "sequenceE [] = Inr []"
| "sequenceE (m # ms) =
     (case m of Inl e \<Rightarrow> Inl e
      | Inr v \<Rightarrow> (case sequenceE ms of Inl e \<Rightarrow> Inl e | Inr vs \<Rightarrow> Inr (v # vs)))"

text \<open>\<^verbatim>\<open>x[key]\<close> with a string key: KeyError on a dict without the key, TypeError on
  any value that is not a dict.\<close>

fun subscript :: "json \<Rightarrow> string \<Rightarrow> json result" where
  "subscript (JObj kvs) k = (case map_of kvs k of None \<Rightarrow> Inl KeyError | Some v \<Rightarrow> Inr v)"
| "subscript _ k = Inl TypeError"

text \<open>\<^verbatim>\<open>x.get(key, default)\<close>: only a dict has the method.\<close>

fun py_get :: "json \<Rightarrow> string \<Rightarrow> json \<Rightarrow> json result" where
  "py_get (JObj kvs) k d = (case map_of kvs k of None \<Rightarrow> Inr d | Some v \<Rightarrow> Inr v)"
| "py_get _ k d = Inl AttributeError"

text \<open>Truthiness, as \<^verbatim>\<open>1.0 if x else 0.0\<close> tests it.\<close>

fun py_truthy :: "json \<Rightarrow> bool" where
  "py_truthy JNull = False"
| "py_truthy (JBool b) = b"
| "py_truthy (JInt n) = (n \<noteq> 0)"
| "py_truthy (JFloat x) = (x \<noteq> 0)"
| "py_truthy (JStr s) = (s \<noteq> [])"
| "py_truthy (JList xs) = (xs \<noteq> [])"
| "py_truthy (JObj kvs) = (kvs \<noteq> [])"

text \<open>The numeric value of an int, float or bool; anything else is not a number.\<close>

fun as_number :: "json \<Rightarrow> real option" where
  "as_number (JInt n) = Some (real_of_int n)"
| "as_number (JFloat x) = Some x"
| "as_number (JBool b) = Some (if b then 1 else 0)"
| "as_number _ = None"

text \<open>
  An int becomes the nearest double, a tie going to the even mantissa. The largest double is
  \<open>2 ^ 1024 - 2 ^ 971\<close>; from \<open>2 ^ 1024 - 2 ^ 970\<close> on the nearest value would be
  \<open>2 ^ 1024\<close>, and the conversion raises OverflowError.
\<close>

definition float_overflow :: int where
  "float_overflow = 2 ^ 1024 - 2 ^ 970"

definition int_to_float :: "int \<Rightarrow> real result" where
  "int_to_float n =
     (if float_overflow \<le> \<bar>n\<bar> then Inl OverflowError else Inr (real_of_int n))"

text \<open>\<^verbatim>\<open>n / c\<close> for two ints: ZeroDivisionError when \<open>c\<close> is zero; the quotient is rounded
  once, and OverflowError is raised when it is too large for a double.\<close>

definition int_truediv :: "int \<Rightarrow> int \<Rightarrow> real result" where
  "int_truediv n c =
     (if c = 0 then Inl ZeroDivisionError
      else if \<bar>c\<bar> * float_overflow \<le> \<bar>n\<bar> then Inl OverflowError
      else Inr (real_of_int n / real_of_int c))"

text \<open>\<^verbatim>\<open>x / c\<close> for an int constant \<open>c\<close>: a bool is an int, a float divides by the
  float of \<open>c\<close>, and nothing else has a division.\<close>

fun py_truediv :: "json \<Rightarrow> int \<Rightarrow> json result" where
  "py_truediv (JInt n) c = bindE (int_truediv n c) (\<lambda>q. Inr (JFloat q))"
| "py_truediv (JBool b) c = bindE (int_truediv (if b then 1 else 0) c) (\<lambda>q. Inr (JFloat q))"
| "py_truediv (JFloat x) c =
     bindE (int_to_float c) (\<lambda>d. if d = 0 then Inl ZeroDivisionError else Inr (JFloat (x / d)))"
| "py_truediv _ c = Inl TypeError"

text \<open>
  The tables of the library that train.py imports, and Python's parser of float literals
  (\<^verbatim>\<open>float("1.5")\<close>), are not part of train.py: they are parameters of the model.
\<close>

record externals =
  SAMPLERS_MAP_keys :: "string list"
  CONTROLNET_IMAGE_PREPROCESSOR_MAP_keys :: "string list"
  SOURCE_IMAGE_PROCESSING_OPTIONS :: "string list"
  float_of_str :: "string \<Rightarrow> real option"

text \<open>\<^verbatim>\<open>float(x)\<close>: a float is itself, a bool is 0.0 or 1.0, an int converts or raises
  OverflowError, a string is parsed (ValueError when it is not a float literal), None,
  lists and dicts raise TypeError.\<close>

fun py_float :: "externals \<Rightarrow> json \<Rightarrow> json result" where
  "py_float X (JStr s) =
     (case float_of_str X s of None \<Rightarrow> Inl ValueError | Some v \<Rightarrow> Inr (JFloat v))"
| "py_float X (JInt n) = bindE (int_to_float n) (\<lambda>v. Inr (JFloat v))"
| "py_float X (JFloat x) = Inr (JFloat x)"
| "py_float X (JBool b) = Inr (JFloat (if b then 1 else 0))"
| "py_float X _ = Inl TypeError"

text \<open>\<^verbatim>\<open>x in strings\<close> and \<^verbatim>\<open>strings.index(x)\<close> for a list of str: a value equals a
  str only when it is that str.\<close>

fun py_in :: "json \<Rightarrow> string list \<Rightarrow> bool" where
  "py_in (JStr s) unique_strings = (s \<in> set unique_strings)"
| "py_in _ unique_strings = False"

fun find_index_str :: "string \<Rightarrow> string list \<Rightarrow> nat option" where
  "find_index_str s [] = None"
| "find_index_str s (u # us) =
     (if s = u then Some 0 else map_option Suc (find_index_str s us))"

fun list_index :: "string list \<Rightarrow> json \<Rightarrow> nat result" where
  "list_index unique_strings (JStr s) =
     (case find_index_str s unique_strings of None \<Rightarrow> Inl ValueError | Some j \<Rightarrow> Inr j)"
| "list_index unique_strings _ = Inl ValueError"

text \<open>\<^verbatim>\<open>x[:]\<close>, as the sequence of items a later \<^verbatim>\<open>enumerate\<close> walks: a list is copied,
  a str yields its characters, everything else raises.\<close>

fun py_slice_all :: "json \<Rightarrow> json list result" where
  "py_slice_all (JList xs) = Inr xs"
| "py_slice_all (JStr s) = Inr (map (\<lambda>c. JStr [c]) s)"
| "py_slice_all _ = Inl TypeError"

section \<open>Vocabularies\<close>

definition KNOWN_POST_PROCESSORS :: "string list" where
  "KNOWN_POST_PROCESSORS =
     [''RealESRGAN_x4plus'', ''RealESRGAN_x2plus'', ''RealESRGAN_x4plus_anime_6B'',
      ''NMKD_Siax'', ''4x_AnimeSharp'', ''strip_background'', ''GFPGAN'', ''CodeFormers'']"

definition KNOWN_SCHEDULERS :: "string list" where
  "KNOWN_SCHEDULERS = sort [''simple'', ''karras'']"

definition KNOWN_SAMPLERS :: "externals \<Rightarrow> string list" where
  "KNOWN_SAMPLERS X = sort (remdups (SAMPLERS_MAP_keys X))"

definition KNOWN_CONTROL_TYPES :: "externals \<Rightarrow> string list" where
  "KNOWN_CONTROL_TYPES X =
     sort (remdups (CONTROLNET_IMAGE_PREPROCESSOR_MAP_keys X) @ [''None''])"

definition KNOWN_SOURCE_PROCESSING :: "externals \<Rightarrow> string list" where
  "KNOWN_SOURCE_PROCESSING X = sort (SOURCE_IMAGE_PROCESSING_OPTIONS X @ [''txt2img''])"

definition KNOWN_MODEL_BASELINES :: "string list" where
  "KNOWN_MODEL_BASELINES =
     sort [''stable_diffusion_1'', ''stable_diffusion_2'', ''stable_diffusion_xl'',
           ''stable_cascade'', ''flux_1'']"

section \<open>One-hot encoding\<close>

text \<open>A two-dimensional tensor is the list of its rows.\<close>

type_synonym tensor2 = "real list list"

definition torch_zeros :: "nat \<Rightarrow> nat \<Rightarrow> tensor2" where
  "torch_zeros r c = replicate r (replicate c 0)"

text \<open>The loop \<^verbatim>\<open>for i, string in enumerate(strings): one_hot[i, unique_strings.index(string)] = 1\<close>.\<close>

fun one_hot_loop :: "nat \<Rightarrow> json list \<Rightarrow> string list \<Rightarrow> tensor2 \<Rightarrow> tensor2 result" where
  "one_hot_loop i [] unique_strings one_hot = Inr one_hot"
| "one_hot_loop i (s # strings) unique_strings one_hot =
     (case list_index unique_strings s of
        Inl e \<Rightarrow> Inl e
      | Inr j \<Rightarrow> one_hot_loop (Suc i) strings unique_strings
                  (one_hot[i := (one_hot ! i)[j := 1]]))"

definition one_hot_encode :: "json list \<Rightarrow> string list \<Rightarrow> tensor2 result" where
  "one_hot_encode strings unique_strings =
     one_hot_loop 0 strings unique_strings
       (torch_zeros (length strings) (length unique_strings))"

text \<open>\<^verbatim>\<open>torch.sum(one_hot, dim=0, keepdim=True)\<close> of a tensor with \<open>c\<close> columns: one row,
  the sum of all rows (a row of zeros when there is none).\<close>

definition torch_sum_dim0_keepdim :: "nat \<Rightarrow> tensor2 \<Rightarrow> tensor2" where
  "torch_sum_dim0_keepdim c one_hot =
     [foldr (\<lambda>row acc. map2 (+) row acc) one_hot (replicate c 0)]"

definition one_hot_encode_combined :: "json list \<Rightarrow> string list \<Rightarrow> tensor2 result" where
  "one_hot_encode_combined strings unique_strings =
     bindE (one_hot_loop 0 strings unique_strings
              (torch_zeros (length strings) (length unique_strings)))
       (\<lambda>one_hot. Inr (torch_sum_dim0_keepdim (length unique_strings) one_hot))"

section \<open>The feature encoder\<close>

text \<open>
  \<^verbatim>\<open>torch.tensor\<close> works in passes over the nested list it is given. One pass infers the
  element type: bool, int and float items give bool, 64-bit integer and float, a list
  gives the join of its items (float when it is empty), a str raises TypeError, and None
  and a dict raise RuntimeError (no type can be inferred).
\<close>

datatype dtype = kBool | kLong | kFloat

definition promoteTypes :: "dtype \<Rightarrow> dtype \<Rightarrow> dtype" where
  "promoteTypes a b =
     (if a = kFloat \<or> b = kFloat then kFloat
      else if a = kLong \<or> b = kLong then kLong else kBool)"

fun infer_scalar_type :: "json \<Rightarrow> dtype result" where
  "infer_scalar_type (JFloat x) = Inr kFloat"
| "infer_scalar_type (JInt n) = Inr kLong"
| "infer_scalar_type (JBool b) = Inr kBool"
| "infer_scalar_type (JStr s) = Inl TypeError"
| "infer_scalar_type (JList xs) =
     (if xs = [] then Inr kFloat
      else bindE (sequenceE (map infer_scalar_type xs))
             (\<lambda>tys. Inr (foldl promoteTypes (hd tys) (tl tys))))"
| "infer_scalar_type JNull = Inl RuntimeError"
| "infer_scalar_type (JObj kvs) = Inl RuntimeError"

text \<open>
  The last pass stores the items one by one in the inferred type. For float an int is
  converted as \<^verbatim>\<open>float\<close> does; for the 64-bit integer type an int outside the range raises
  RuntimeError; a list where a single item is due raises TypeError. The results are read
  after \<^verbatim>\<open>.float()\<close>. (The type is the join of the types of all items, so a float is
  never stored as an integer or a bool, nor an int as a bool; None, a str and a dict have
  been refused by the first pass.)
\<close>

fun store_scalar :: "dtype \<Rightarrow> json \<Rightarrow> real result" where
  "store_scalar kFloat (JInt n) = int_to_float n"
| "store_scalar kLong (JInt n) =
     (if - (2 ^ 63) \<le> n \<and> n < 2 ^ 63 then Inr (real_of_int n) else Inl RuntimeError)"
| "store_scalar kBool (JInt n) = Inr (if n \<noteq> 0 then 1 else 0)"
| "store_scalar kFloat (JFloat x) = Inr x"
| "store_scalar kLong (JFloat x) = Inr (real_of_int (if 0 \<le> x then \<lfloor>x\<rfloor> else \<lceil>x\<rceil>))"
| "store_scalar kBool (JFloat x) = Inr (if x \<noteq> 0 then 1 else 0)"
| "store_scalar ty (JBool b) = Inr (if b then 1 else 0)"
| "store_scalar ty _ = Inl TypeError"

text \<open>
  \<^verbatim>\<open>torch.tensor(data).float()\<close> for the list \<^verbatim>\<open>data\<close> of the encoder. Its rows begin with
  the float that a division has given, so the tensor has two dimensions and the float
  type: every item is checked by the type inference, then stored as a float; rows of
  different lengths raise ValueError.
\<close>

abbreviation torch_scalar :: "json \<Rightarrow> real result" where
  "torch_scalar \<equiv> store_scalar kFloat"

definition torch_tensor_float :: "json list list \<Rightarrow> tensor2 result" where
  "torch_tensor_float rows =
     bindE (sequenceE (map (\<lambda>row. sequenceE (map infer_scalar_type row)) rows)) (\<lambda>tys.
     bindE (sequenceE (map (\<lambda>row. sequenceE (map torch_scalar row)) rows))
       (\<lambda>t. if \<forall>r \<in> set t. length r = length (hd t) then Inr t else Inl ValueError))"

text \<open>\<^verbatim>\<open>torch.cat(ts, dim=1)\<close>: the tensors must agree on the number of rows; row \<open>i\<close>
  of the result is the concatenation of their rows \<open>i\<close>.\<close>

definition torch_cat_dim1 :: "tensor2 list \<Rightarrow> tensor2 result" where
  "torch_cat_dim1 ts =
     (case ts of
        [] \<Rightarrow> Inl RuntimeError
      | t # _ \<Rightarrow>
          if \<forall>t' \<in> set ts. length t' = length t
          then Inr (map (\<lambda>i. concat (map (\<lambda>t'. t' ! i) ts)) [0..<length t])
          else Inl RuntimeError)"

text \<open>The three shapes of optional numeric entries of the row:
  \<^verbatim>\<open>p.get(k, 1.0) if p.get(k, 1.0) is not None else 1.0\<close>,
  \<^verbatim>\<open>float(p.get(k, d))\<close> and \<^verbatim>\<open>1.0 if p.get(k, True) else 0.0\<close>.\<close>

definition get_strength :: "json \<Rightarrow> string \<Rightarrow> json result" where
  "get_strength p k =
     bindE (py_get p k (JFloat 1)) (\<lambda>v. Inr (if v \<noteq> JNull then v else JFloat 1))"

definition get_float :: "externals \<Rightarrow> json \<Rightarrow> string \<Rightarrow> real \<Rightarrow> json result" where
  "get_float X p k d = bindE (py_get p k (JFloat d)) (py_float X)"

definition get_flag :: "json \<Rightarrow> string \<Rightarrow> json result" where
  "get_flag p k =
     bindE (py_get p k (JBool True)) (\<lambda>v. Inr (JFloat (if py_truthy v then 1 else 0)))"

text \<open>The 23 items of the list appended to \<^verbatim>\<open>data\<close>, in the order of the source.\<close>

definition data_row :: "externals \<Rightarrow> json \<Rightarrow> json result list" where
  "data_row X p =
     [bindE (subscript p ''height'') (\<lambda>v. py_truediv v 1024),
      bindE (subscript p ''width'') (\<lambda>v. py_truediv v 1024),
      bindE (subscript p ''ddim_steps'') (\<lambda>v. py_truediv v 100),
      bindE (subscript p ''cfg_scale'') (\<lambda>v. py_truediv v 30),
      get_strength p ''denoising_strength'',
      get_float X p ''clip_skip'' 1,
      get_strength p ''control_strength'',
      get_strength p ''facefixer_strength'',
      get_float X p ''lora_count'' 0,
      get_float X p ''ti_count'' 0,
      get_float X p ''extra_source_images_count'' 0,
      get_float X p ''extra_source_images_combined_size'' 0,
      get_float X p ''source_image_size'' 0,
      get_float X p ''source_mask_size'' 0,
      get_flag p ''hires_fix'',
      get_flag p ''hires_fix_denoising_strength'',
      get_flag p ''image_is_control'',
      get_flag p ''return_control_map'',
      get_flag p ''transparent'',
      get_flag p ''source_image'',
      get_flag p ''source_mask'',
      get_flag p ''tiling'',
      bindE (py_get p ''post_processing_order'' (JStr ''facefixers_first''))
        (\<lambda>v. Inr (JFloat (if v = JStr ''facefixers_first'' then 1 else 0)))]"

definition payload_to_tensor :: "externals \<Rightarrow> json \<Rightarrow> tensor2 result" where
  "payload_to_tensor X payload0 =
     bindE (subscript payload0 ''sdk_api_job_info'') (\<lambda>payload.
     bindE (subscript payload ''payload'') (\<lambda>p.
     bindE (sequenceE (data_row X p)) (\<lambda>row.
     bindE (subscript payload ''model_baseline'') (\<lambda>model_baseline.
     bindE (subscript p ''scheduler'') (\<lambda>scheduler.
     bindE (subscript p ''sampler_name'') (\<lambda>sampler_name.
     bindE (py_get p ''control_type'' (JStr ''None'')) (\<lambda>control_type.
     bindE (py_get payload ''source_processing'' (JStr ''txt2img'')) (\<lambda>source_processing.
     bindE (bindE (py_get p ''post_processing'' (JList [])) py_slice_all)
       (\<lambda>data_post_processors.
     let data_model_baseline =
           [if py_in model_baseline KNOWN_MODEL_BASELINES then model_baseline
            else JStr ''stable_diffusion_xl''];
         data_schedulers = [scheduler];
         data_samplers =
           [if py_in sampler_name (KNOWN_SAMPLERS X) then sampler_name else JStr ''k_euler''];
         data_control_types = [if control_type \<noteq> JNull then control_type else JStr ''None''];
         data_source_processing_types = [source_processing]
     in
     bindE (torch_tensor_float [row]) (\<lambda>data_floats.
     bindE (one_hot_encode data_model_baseline KNOWN_MODEL_BASELINES) (\<lambda>data_model_baselines.
     bindE (one_hot_encode data_samplers (KNOWN_SAMPLERS X)) (\<lambda>data_samplers'.
     bindE (one_hot_encode data_schedulers KNOWN_SCHEDULERS) (\<lambda>data_schedulers'.
     bindE (one_hot_encode data_control_types (KNOWN_CONTROL_TYPES X)) (\<lambda>data_control_types'.
     bindE (one_hot_encode data_source_processing_types (KNOWN_SOURCE_PROCESSING X))
       (\<lambda>data_source_processing_types'.
     bindE (one_hot_encode_combined data_post_processors KNOWN_POST_PROCESSORS)
       (\<lambda>data_post_processors'.
     torch_cat_dim1
       [data_floats, data_model_baselines, data_samplers', data_schedulers',
        data_control_types', data_source_processing_types',
        data_post_processors']))))))))))))))))"

section \<open>The dataset\<close>

text \<open>A tensor of any rank, for \<^verbatim>\<open>torch.tensor(self.labels).float()\<close>: the labels are
  whatever the file holds.\<close>

datatype tensor = Scalar real | Tensor "tensor list"

text \<open>
  The first pass of \<^verbatim>\<open>torch.tensor\<close> takes the sizes from the first item of every level,
  down to the first item that is not a sequence or to an empty one. A str is a sequence
  whose first item is a str again: unless it is empty the descent ends at the limit of
  128 dimensions with ValueError, as it does for lists nested more deeply than that.
\<close>

fun compute_sizes :: "json \<Rightarrow> nat list result" where
  "compute_sizes (JList []) = Inr [0]"
| "compute_sizes (JList (x # xs)) =
     bindE (compute_sizes x) (\<lambda>sizes. Inr (Suc (length xs) # sizes))"
| "compute_sizes (JStr s) = (if s = [] then Inr [0] else Inl ValueError)"
| "compute_sizes _ = Inr []"

definition MAX_DIMS :: nat where
  "MAX_DIMS = 128"

text \<open>
  Storing walks the list by these sizes: at a level that has a size the item must be a
  list (TypeError) of that length (ValueError), below the last size it is stored as a
  single item.
\<close>

fun recursive_store :: "dtype \<Rightarrow> nat list \<Rightarrow> json \<Rightarrow> tensor result" where
  "recursive_store ty [] obj = bindE (store_scalar ty obj) (\<lambda>x. Inr (Scalar x))"
| "recursive_store ty (n # sizes) (JList xs) =
     (if length xs \<noteq> n then Inl ValueError
      else bindE (sequenceE (map (recursive_store ty sizes) xs)) (\<lambda>ts. Inr (Tensor ts)))"
| "recursive_store ty (n # sizes) _ = Inl TypeError"

text \<open>The tensor of the given sizes when one of them is 0: it has no item.\<close>

fun empty_tensor :: "nat list \<Rightarrow> tensor" where
  "empty_tensor [] = Scalar 0"
| "empty_tensor (n # sizes) = Tensor (replicate n (empty_tensor sizes))"

text \<open>\<^verbatim>\<open>torch.tensor(obj).float()\<close> for a list \<open>obj\<close>: the sizes, the type, and the items
  unless there is none to store.\<close>

definition torch_tensor :: "json \<Rightarrow> tensor result" where
  "torch_tensor obj =
     bindE (compute_sizes obj) (\<lambda>sizes.
       if length sizes > MAX_DIMS then Inl ValueError
       else
         bindE (infer_scalar_type obj) (\<lambda>ty.
           if prod_list sizes = 0 then Inr (empty_tensor sizes)
           else recursive_store ty sizes obj))"

text \<open>\<^verbatim>\<open>torch.stack(rows)\<close> refuses an empty list and rows of different lengths.\<close>

definition torch_stack :: "real list list \<Rightarrow> tensor2 result" where
  "torch_stack rows =
     (if rows = [] then Inl RuntimeError
      else if \<forall>r \<in> set rows. length r = length (hd rows) then Inr rows
      else Inl RuntimeError)"

text \<open>\<^verbatim>\<open>t[0]\<close>, the first row.\<close>

definition tensor_getitem0 :: "tensor2 \<Rightarrow> real list result" where
  "tensor_getitem0 t = (case t of [] \<Rightarrow> Inl IndexError | r # _ \<Rightarrow> Inr r)"

text \<open>The items a \<^verbatim>\<open>for\<close> loop over a loaded JSON value walks: the items of a list, the
  keys of a dict, the characters of a str; other values are not iterable.\<close>

fun py_iter :: "json \<Rightarrow> json list result" where
  "py_iter (JList xs) = Inr xs"
| "py_iter (JObj kvs) = Inr (map JStr (remdups (map fst kvs)))"
| "py_iter (JStr s) = Inr (map (\<lambda>c. JStr [c]) s)"
| "py_iter _ = Inl TypeError"

text \<open>The loop of \<^verbatim>\<open>KudosDataset.__init__\<close> over the loaded records, with the two lists
  \<^verbatim>\<open>self.data\<close> and \<^verbatim>\<open>self.labels\<close> as its state.\<close>

fun init_loop ::
  "externals \<Rightarrow> json list \<Rightarrow> real list list \<times> json list \<Rightarrow> (real list list \<times> json list) result"
where
  "init_loop X [] (ds, ls) = Inr (ds, ls)"
| "init_loop X (payload # payload_list) (ds, ls) =
     (case subscript payload ''time_to_generate'' of
        Inl e \<Rightarrow> Inl e
      | Inr time_to_generate \<Rightarrow>
          if time_to_generate = JNull then init_loop X payload_list (ds, ls)
          else
            (case bindE (payload_to_tensor X payload) tensor_getitem0 of
               Inl e \<Rightarrow> Inl e
             | Inr row \<Rightarrow> init_loop X payload_list (ds @ [row], ls @ [time_to_generate])))"

record KudosDataset =
  data :: "real list list"
  labels :: tensor
  mixed_data :: tensor2

text \<open>\<^verbatim>\<open>KudosDataset(filename)\<close>, from the value \<^verbatim>\<open>json.load\<close> returned for the file.\<close>

definition KudosDataset_init :: "externals \<Rightarrow> json \<Rightarrow> KudosDataset result" where
  "KudosDataset_init X loaded =
     bindE (py_iter loaded) (\<lambda>payload_list.
     bindE (init_loop X payload_list ([], [])) (\<lambda>(ds, ls).
     bindE (torch_tensor (JList ls)) (\<lambda>labels_tensor.
     bindE (torch_stack ds) (\<lambda>stacked.
     Inr \<lparr>data = ds, labels = labels_tensor, mixed_data = stacked\<rparr>))))"

definition KudosDataset_len :: "KudosDataset \<Rightarrow> nat" where
  "KudosDataset_len self = length (data self)"

section \<open>The network builder\<close>

text \<open>The layers of \<^verbatim>\<open>torch.nn\<close> that the builder uses. \<^verbatim>\<open>nn.Linear(a, b)\<close> has a third
  parameter \<^verbatim>\<open>bias\<close> with default True; the source never passes it.\<close>

datatype layer = Linear nat nat bool | ReLU | Dropout real

definition nn_Linear :: "nat \<Rightarrow> nat \<Rightarrow> layer" where
  "nn_Linear in_features out_features = Linear in_features out_features True"

text \<open>The values an Optuna trial hands out: one per \<^verbatim>\<open>trial.suggest_*\<close> call, by the
  parameter's name (the index in the names \<^verbatim>\<open>hidden_layer_{i}_size\<close> and \<^verbatim>\<open>dropout_l{i}\<close>).\<close>

record trial =
  number :: nat
  hidden_layers :: nat
  hidden_layer_size :: "nat \<Rightarrow> nat"
  dropout_l :: "nat \<Rightarrow> real"
  optimizer :: string
  lr :: real
  weight_decay :: real
  batch_size :: nat
  num_epochs :: nat

definition create_sequential_model :: "trial \<Rightarrow> nat list \<Rightarrow> nat \<Rightarrow> nat \<Rightarrow> layer list" where
  "create_sequential_model tr layer_sizes0 input_size output_size =
     (let layer_sizes = [input_size] @ layer_sizes0 @ [output_size] in
      foldl (\<lambda>layers i.
          layers @ [nn_Linear (layer_sizes ! i) (layer_sizes ! (i + 1))]
            @ (if i < length layer_sizes - 2
               then [ReLU] @ (if i > 0 then [Dropout (dropout_l tr i)] else [])
               else []))
        [] [0..<length layer_sizes - 1])"

section \<open>Rounding\<close>

text \<open>\<^verbatim>\<open>round(x, 2)\<close>: the nearest multiple of 1/100, a tie going to the even one.\<close>

definition py_round2 :: "real \<Rightarrow> real" where
  "py_round2 x =
     (let y = x * 100; f = \<lfloor>y\<rfloor>; d = y - real_of_int f in
      real_of_int (if d < 1/2 then f else if d > 1/2 then f + 1
                   else if even f then f else f + 1) / 100)"

section \<open>The inference helper\<close>

text \<open>\<^verbatim>\<open>squeeze()\<close> of the encoder's tensor of shape (1, N), N > 1: its row.\<close>

definition torch_squeeze :: "tensor2 \<Rightarrow> real list" where
  "torch_squeeze t = concat t"

text \<open>The network is a parameter: the function from the input vector to the scalar that
  \<^verbatim>\<open>model(inputs).item()\<close> reads.\<close>

definition payload_to_time :: "externals \<Rightarrow> (real list \<Rightarrow> real) \<Rightarrow> json \<Rightarrow> real result" where
  "payload_to_time X model payload =
     bindE (payload_to_tensor X payload) (\<lambda>t.
       let inputs = torch_squeeze t; output = model inputs in
       Inr (py_round2 output))"

section \<open>The search objective\<close>

definition PAYLOAD_EXAMPLE :: json where
  "PAYLOAD_EXAMPLE =
     JObj
      [(''sdk_api_job_info'', JObj
         [(''id_'', JStr ''7ba3b75b-6926-4e78-ad42-6763fa15c262''),
          (''ids'', JList [JStr ''7ba3b75b-6926-4e78-ad42-6763fa15c262'']),
          (''payload'', JObj
            [(''sampler_name'', JStr ''k_euler''),
             (''cfg_scale'', JFloat 24),
             (''denoising_strength'', JNull),
             (''seed'', JStr ''2066405361''),
             (''height'', JInt 1024),
             (''width'', JInt 768),
             (''seed_variation'', JNull),
             (''post_processing'', JList []),
             (''post_processing_order'', JStr ''facefixers_first''),
             (''tiling'', JBool False),
             (''hires_fix'', JBool False),
             (''hires_fix_denoising_strength'', JNull),
             (''clip_skip'', JInt 1),
             (''control_type'', JNull),
             (''image_is_control'', JBool False),
             (''return_control_map'', JBool False),
             (''facefixer_strength'', JNull),
             (''loras'', JNull),
             (''tis'', JNull),
             (''extra_texts'', JNull),
             (''workflow'', JNull),
             (''transparent'', JBool False),
             (''use_nsfw_censor'', JBool False),
             (''ddim_steps'', JInt 40),
             (''n_iter'', JInt 1),
             (''scheduler'', JStr ''karras''),
             (''lora_count'', JInt 0),
             (''ti_count'', JInt 0)]),
          (''model'', JStr ''Dreamshaper''),
          (''source_processing'', JStr ''img2img''),
          (''model_baseline'', JStr ''stable_diffusion_1''),
          (''extra_source_images_count'', JInt 0),
          (''extra_source_images_combined_size'', JInt 0),
          (''source_image_size'', JInt 0),
          (''source_mask_size'', JInt 0)]),
       (''state'', JStr ''ok''),
       (''censored'', JBool False),
       (''time_popped'', JFloat (17298378278703332 / 10000000)),
       (''time_submitted'', JFloat (17298378353562803 / 10000000)),
       (''time_to_generate'', JFloat (4450331687927246 / 1000000000000000)),
       (''time_to_download_aux_models'', JNull)]"





text \<open>The first part of \<^verbatim>\<open>objective\<close>: the input width and the network.\<close>

definition input_size :: "externals \<Rightarrow> nat result" where
  "input_size X =
     bindE (bindE (payload_to_tensor X PAYLOAD_EXAMPLE) tensor_getitem0)
       (\<lambda>row. Inr (length row))"

definition objective_network :: "externals \<Rightarrow> trial \<Rightarrow> layer list result" where
  "objective_network X tr =
     bindE (input_size X) (\<lambda>n.
       let num_hidden_layers = hidden_layers tr;
           layers = map (hidden_layer_size tr) [0..<num_hidden_layers];
           output_size = 1
       in Inr (create_sequential_model tr layers n output_size))"


section \<open>The expected shape of a feature vector\<close>

text \<open>The number of numeric fields plus the sizes of the six vocabularies.\<close>

definition feature_width :: "externals \<Rightarrow> nat" where
  "feature_width X =
     23 + (length KNOWN_MODEL_BASELINES + length (KNOWN_SAMPLERS X) + length KNOWN_SCHEDULERS
           + length (KNOWN_CONTROL_TYPES X) + length (KNOWN_SOURCE_PROCESSING X)
           + length KNOWN_POST_PROCESSORS)"

section \<open>A concrete instance of the parameters\<close>

text \<open>A small instance of the imported tables and a finite fragment of the float parser,
  for evaluating the definitions at concrete inputs.\<close>

definition sample_externals :: externals where
  "sample_externals =
     \<lparr>SAMPLERS_MAP_keys = [''k_lms'', ''k_euler'', ''ddim''],
      CONTROLNET_IMAGE_PREPROCESSOR_MAP_keys = [''canny'', ''depth''],
      SOURCE_IMAGE_PROCESSING_OPTIONS = [''img2img'', ''inpainting'', ''outpainting''],
      float_of_str = map_of [(''0'', 0), (''1'', 1), (''2'', 2), (''0.5'', 1/2)]\<rparr>"

text \<open>A record with the fields the encoder always reads, a sampler, a scheduler and a
  model baseline of choice, and further fields for the payload and for the job info.\<close>

definition sample_record ::
  "json \<Rightarrow> json \<Rightarrow> json \<Rightarrow> (string \<times> json) list \<Rightarrow> (string \<times> json) list \<Rightarrow> json"
where
  "sample_record sampler scheduler baseline optional_p optional_info =
     JObj [(''sdk_api_job_info'', JObj
       ([(''payload'', JObj
            ([(''height'', JInt 512), (''width'', JInt 512), (''ddim_steps'', JInt 30),
              (''cfg_scale'', JFloat 7), (''sampler_name'', sampler),
              (''scheduler'', scheduler)] @ optional_p)),
         (''model_baseline'', baseline)] @ optional_info))]"

definition minimal_record :: json where
  "minimal_record =
     sample_record (JStr ''k_euler'') (JStr ''karras'') (JStr ''stable_diffusion_1'') [] []"

definition gfpgan_twice :: json where
  "gfpgan_twice =
     sample_record (JStr ''k_euler'') (JStr ''karras'') (JStr ''stable_diffusion_1'')
       [(''post_processing'', JList [JStr ''GFPGAN'', JStr ''GFPGAN''])] []"

definition hires_strength_record :: json where
  "hires_strength_record =
     sample_record (JStr ''k_euler'') (JStr ''karras'') (JStr ''stable_diffusion_1'')
       [(''hires_fix'', JBool True), (''hires_fix_denoising_strength'', JFloat (65 / 100))] []"

text \<open>A trial, and a network that answers with its first input minus 1.73456.\<close>

definition sample_trial :: trial where
  "sample_trial =
     \<lparr>number = 0, hidden_layers = 2, hidden_layer_size = (\<lambda>i. if i = 0 then 8 else 4),
      dropout_l = (\<lambda>i. 1 / 10), optimizer = ''Adam'', lr = 1 / 1000,
      weight_decay = 1 / 100000, batch_size = 32, num_epochs = 50\<rparr>"

definition sample_network :: "real list \<Rightarrow> real" where
  "sample_network inputs = hd inputs - 173456 / 100000"


definition null_label_record :: json where
  "null_label_record =
     JObj [(''sdk_api_job_info'', JObj []), (''time_to_generate'', JNull)]"



definition sample_dataset :: KudosDataset where
  "sample_dataset =
     \<lparr>data = [[1, 3 / 4, 2 / 5, 4 / 5, 1, 1, 1, 1, 0, 0, 0, 0, 0, 0, 0, 0, 0, 0,
          0, 1, 1, 0, 1, 0, 0, 1, 0, 0, 0, 1, 0, 1, 0, 1, 0, 0, 1, 0, 0, 0,
          0, 0, 0, 0, 0, 0, 0, 0]],
      labels = Tensor [Scalar (4450331687927246 / 1000000000000000)],
      mixed_data = [[1, 3 / 4, 2 / 5, 4 / 5, 1, 1, 1, 1, 0, 0, 0, 0, 0, 0, 0, 0, 0, 0,
          0, 1, 1, 0, 1, 0, 0, 1, 0, 0, 0, 1, 0, 1, 0, 1, 0, 0, 1, 0, 0, 0,
          0, 0, 0, 0, 0, 0, 0, 0]]\<rparr>"

text \<open>Records with a null clip_skip, with a height too large for a float, with a sampler
  and a model baseline outside the vocabularies, with an unknown scheduler, control type
  and source-processing mode, and a data file whose second record has no label field.\<close>

definition huge_height_record :: json where
  "huge_height_record =
     JObj [(''sdk_api_job_info'', JObj
       [(''payload'', JObj
          [(''height'', JInt (10 ^ 400)), (''width'', JInt 512), (''ddim_steps'', JInt 30),
           (''cfg_scale'', JFloat 7), (''sampler_name'', JStr ''k_euler''),
           (''scheduler'', JStr ''karras'')]),
        (''model_baseline'', JStr ''stable_diffusion_1'')])]"

definition null_clip_skip_record :: json where
  "null_clip_skip_record =
     sample_record (JStr ''k_euler'') (JStr ''karras'') (JStr ''stable_diffusion_1'')
       [(''clip_skip'', JNull)] []"

definition oov_record :: json where
  "oov_record =
     sample_record (JStr ''dpmpp_3m'') (JStr ''karras'') (JStr ''stable_diffusion_3'')
       [(''control_type'', JNull)] []"

definition unknown_scheduler_record :: json where
  "unknown_scheduler_record =
     sample_record (JStr ''k_euler'') (JStr ''exponential'') (JStr ''stable_diffusion_1'') [] []"

definition unknown_control_type_record :: json where
  "unknown_control_type_record =
     sample_record (JStr ''k_euler'') (JStr ''karras'') (JStr ''stable_diffusion_1'')
       [(''control_type'', JStr ''no_such_control_type'')] []"

definition unknown_source_processing_record :: json where
  "unknown_source_processing_record =
     sample_record (JStr ''k_euler'') (JStr ''karras'') (JStr ''stable_diffusion_1'')
       [] [(''source_processing'', JStr ''no_such_mode'')]"



definition missing_label_data :: json where
  "missing_label_data = JList [PAYLOAD_EXAMPLE, minimal_record]"


section \<open>Reading a record, for stating properties\<close>

fun is_dict :: "json \<Rightarrow> bool" where
  "is_dict (JObj kvs) = True"
| "is_dict _ = False"

fun lookup :: "json \<Rightarrow> string \<Rightarrow> json option" where
  "lookup (JObj kvs) k = map_of kvs k"
| "lookup _ k = None"

definition job_info :: "json \<Rightarrow> json" where
  "job_info r = (case lookup r ''sdk_api_job_info'' of Some v \<Rightarrow> v | None \<Rightarrow> JNull)"

definition job_payload :: "json \<Rightarrow> json" where
  "job_payload r = (case lookup (job_info r) ''payload'' of Some v \<Rightarrow> v | None \<Rightarrow> JNull)"

text \<open>A number that can be used as a float: a float, a bool, or an int that converts.\<close>

fun is_number :: "json \<Rightarrow> bool" where
  "is_number (JInt n) = (\<bar>n\<bar> < float_overflow)"
| "is_number (JFloat x) = True"
| "is_number (JBool b) = True"
| "is_number _ = False"

text \<open>What \<^verbatim>\<open>float(v)\<close> accepts.\<close>

fun floatable :: "externals \<Rightarrow> json \<Rightarrow> bool" where
  "floatable X (JStr s) = (float_of_str X s \<noteq> None)"
| "floatable X v = is_number v"

text \<open>The one-hot row of a value over a vocabulary, when the vocabulary has the value.\<close>

definition one_hot_at :: "string list \<Rightarrow> json \<Rightarrow> real list option" where
  "one_hot_at u s =
     (case list_index u s of Inl e \<Rightarrow> None
      | Inr j \<Rightarrow> Some ((replicate (length u) 0)[j := 1]))"

text \<open>The blocks of a feature vector, by position.\<close>

definition model_baseline_block :: "externals \<Rightarrow> real list \<Rightarrow> real list" where
  "model_baseline_block X row = take (length KNOWN_MODEL_BASELINES) (drop 23 row)"

definition sampler_block :: "externals \<Rightarrow> real list \<Rightarrow> real list" where
  "sampler_block X row =
     take (length (KNOWN_SAMPLERS X)) (drop (23 + length KNOWN_MODEL_BASELINES) row)"

definition post_processor_block :: "externals \<Rightarrow> real list \<Rightarrow> real list" where
  "post_processor_block X row =
     drop (23 + length KNOWN_MODEL_BASELINES + length (KNOWN_SAMPLERS X)
           + length KNOWN_SCHEDULERS + length (KNOWN_CONTROL_TYPES X)
           + length (KNOWN_SOURCE_PROCESSING X)) row"

text \<open>The positions of the eight flags in the numeric block, and the optional numeric
  fields with their positions and defaults.\<close>

definition flag_fields :: "(nat \<times> string) list" where
  "flag_fields =
     [(14, ''hires_fix''), (15, ''hires_fix_denoising_strength''), (16, ''image_is_control''),
      (17, ''return_control_map''), (18, ''transparent''), (19, ''source_image''),
      (20, ''source_mask''), (21, ''tiling'')]"

definition optional_defaults :: "(nat \<times> string \<times> real) list" where
  "optional_defaults =
     [(4, ''denoising_strength'', 1), (5, ''clip_skip'', 1), (6, ''control_strength'', 1),
      (7, ''facefixer_strength'', 1), (8, ''lora_count'', 0), (9, ''ti_count'', 0),
      (10, ''extra_source_images_count'', 0), (11, ''extra_source_images_combined_size'', 0),
      (12, ''source_image_size'', 0), (13, ''source_mask_size'', 0)]
     @ map (\<lambda>(i, k). (i, k, 1)) flag_fields
     @ [(22, ''post_processing_order'', 1)]"

text \<open>
  A record the encoder accepts: the job info and its payload are dicts; height, width,
  ddim_steps and cfg_scale are numbers, an int among them small enough for a float;
  model_baseline and sampler_name are there (an unknown sampler needs k_euler among the
  known ones); the scheduler is a known one; every optional field is absent or of a kind
  its use accepts (a strength null or such a number, a count or size such a number or a
  str that \<^verbatim>\<open>float\<close> parses).
\<close>

definition well_formed :: "externals \<Rightarrow> json \<Rightarrow> bool" where
  "well_formed X r =
     (let info = job_info r; p = job_payload r in
      is_dict info \<and> is_dict p
      \<and> (\<forall>k \<in> set [''height'', ''width'', ''ddim_steps'', ''cfg_scale''].
            case lookup p k of None \<Rightarrow> False | Some v \<Rightarrow> is_number v)
      \<and> (\<forall>k \<in> set [''denoising_strength'', ''control_strength'', ''facefixer_strength''].
            case lookup p k of None \<Rightarrow> True | Some v \<Rightarrow> v = JNull \<or> is_number v)
      \<and> (\<forall>k \<in> set [''clip_skip'', ''lora_count'', ''ti_count'', ''extra_source_images_count'',
                     ''extra_source_images_combined_size'', ''source_image_size'',
                     ''source_mask_size''].
            case lookup p k of None \<Rightarrow> True | Some v \<Rightarrow> floatable X v)
      \<and> lookup info ''model_baseline'' \<noteq> None
      \<and> (case lookup p ''scheduler'' of None \<Rightarrow> False | Some v \<Rightarrow> py_in v KNOWN_SCHEDULERS)
      \<and> (case lookup p ''sampler_name'' of None \<Rightarrow> False
          | Some v \<Rightarrow> py_in v (KNOWN_SAMPLERS X) \<or> ''k_euler'' \<in> set (KNOWN_SAMPLERS X))
      \<and> (case lookup p ''control_type'' of None \<Rightarrow> True
          | Some v \<Rightarrow> v = JNull \<or> py_in v (KNOWN_CONTROL_TYPES X))
      \<and> (case lookup info ''source_processing'' of None \<Rightarrow> True
          | Some v \<Rightarrow> py_in v (KNOWN_SOURCE_PROCESSING X))
      \<and> (case lookup p ''post_processing'' of None \<Rightarrow> True
          | Some (JList xs) \<Rightarrow> \<forall>x \<in> set xs. py_in x KNOWN_POST_PROCESSORS
          | Some _ \<Rightarrow> False))"

text \<open>The other blocks of a feature vector, the positions of the three strengths, and a
  result that is a number.\<close>

definition scheduler_block :: "externals \<Rightarrow> real list \<Rightarrow> real list" where
  "scheduler_block X row =
     take (length KNOWN_SCHEDULERS)
       (drop (23 + length KNOWN_MODEL_BASELINES + length (KNOWN_SAMPLERS X)) row)"

definition control_type_block :: "externals \<Rightarrow> real list \<Rightarrow> real list" where
  "control_type_block X row =
     take (length (KNOWN_CONTROL_TYPES X))
       (drop (23 + length KNOWN_MODEL_BASELINES + length (KNOWN_SAMPLERS X)
              + length KNOWN_SCHEDULERS) row)"

definition source_processing_block :: "externals \<Rightarrow> real list \<Rightarrow> real list" where
  "source_processing_block X row =
     take (length (KNOWN_SOURCE_PROCESSING X))
       (drop (23 + length KNOWN_MODEL_BASELINES + length (KNOWN_SAMPLERS X)
              + length KNOWN_SCHEDULERS + length (KNOWN_CONTROL_TYPES X)) row)"

definition numeric_result :: "json result \<Rightarrow> bool" where
  "numeric_result m = (case m of Inl e \<Rightarrow> False | Inr v \<Rightarrow> is_number v)"


definition strength_fields :: "(nat \<times> string) list" where
  "strength_fields =
     [(4, ''denoising_strength''), (6, ''control_strength''), (7, ''facefixer_strength'')]"


section \<open>The records a data file keeps\<close>

text \<open>The label of a record, and the records of a list whose label is not null.\<close>

definition label_of :: "json \<Rightarrow> json" where
  "label_of r = (case lookup r ''time_to_generate'' of None \<Rightarrow> JNull | Some v \<Rightarrow> v)"

definition kept_records :: "json list \<Rightarrow> json list" where
  "kept_records payload_list = filter (\<lambda>r. label_of r \<noteq> JNull) payload_list"


section \<open>The state and the loss of an epoch\<close>



section \<open>The network the builder is meant to give\<close>

text \<open>
  A feed-forward network written down layer by layer: every hidden width gets a linear
  layer and a ReLU, every hidden layer but the first also a dropout layer with the
  trial's probability for its index, and one linear layer to the output width ends the
  list. \<open>i\<close> is the index of the next linear layer and \<open>w\<close> the width before it.
\<close>

fun feed_forward :: "trial \<Rightarrow> nat \<Rightarrow> nat \<Rightarrow> nat list \<Rightarrow> nat \<Rightarrow> layer list" where
  "feed_forward tr i w [] out = [Linear w out True]"
| "feed_forward tr i w (h # hs) out =
     [Linear w h True, ReLU] @ (if i > 0 then [Dropout (dropout_l tr i)] else [])
       @ feed_forward tr (Suc i) h hs out"

section \<open>Basic facts about the error monad and the encoders\<close>

lemma bindE_Inr_iff: "bindE m f = Inr y \<longleftrightarrow> (\<exists>v. m = Inr v \<and> f v = Inr y)"
  by (cases m) (simp_all add: bindE_def)

lemma bindE_InrE:
  assumes "bindE m f = Inr y"
  obtains v where "m = Inr v" "f v = Inr y"
  using assms by (auto simp: bindE_Inr_iff)

lemma sequenceE_map_Inr: "sequenceE (map Inr vs) = Inr vs"
  by (induction vs) simp_all

lemma sequenceE_Inr_D: "sequenceE ms = Inr vs \<Longrightarrow> ms = map Inr vs"
  by (induction ms arbitrary: vs) (auto split: sum.splits)

lemma sequenceE_Inr_iff: "sequenceE ms = Inr vs \<longleftrightarrow> ms = map Inr vs"
  using sequenceE_map_Inr sequenceE_Inr_D by metis

lemma find_index_str_Some:
  "find_index_str s u = Some j \<Longrightarrow> j < length u \<and> u ! j = s"
  by (induction u arbitrary: j) (auto split: if_splits)

lemma find_index_str_mem:
  "s \<in> set u \<Longrightarrow> \<exists>j. find_index_str s u = Some j"
  by (induction u) auto

lemma list_index_Inr:
  "list_index u x = Inr j \<Longrightarrow> j < length u \<and> x = JStr (u ! j)"
  by (cases x) (auto split: option.splits dest: find_index_str_Some)

lemma list_index_py_in: "py_in x u \<Longrightarrow> \<exists>j. list_index u x = Inr j"
  by (cases x) (auto dest: find_index_str_mem)

lemma one_hot_loop_Inr:
  "one_hot_loop i ss u oh = Inr oh' \<Longrightarrow> length oh = i + length ss \<Longrightarrow>
   (\<forall>k. i \<le> k \<and> k < length oh \<longrightarrow> oh ! k = replicate n 0) \<Longrightarrow>
   \<exists>js. sequenceE (map (list_index u) ss) = Inr js \<and>
        oh' = take i oh @ map (\<lambda>j. (replicate n 0)[j := 1]) js"
proof (induction ss arbitrary: i oh)
  case Nil
  then show ?case by simp
next
  case (Cons s ss)
  from Cons.prems(1) obtain j where j: "list_index u s = Inr j"
    and rec: "one_hot_loop (Suc i) ss u (oh[i := (oh ! i)[j := 1]]) = Inr oh'"
    by (auto split: sum.splits)
  let ?oh = "oh[i := (oh ! i)[j := 1]]"
  have len: "length ?oh = Suc i + length ss" using Cons.prems(2) by simp
  have zeros: "\<forall>k. Suc i \<le> k \<and> k < length ?oh \<longrightarrow> ?oh ! k = replicate n 0"
    using Cons.prems(3) by simp
  from Cons.IH[OF rec len zeros] obtain js where
    js: "sequenceE (map (list_index u) ss) = Inr js"
    and oh': "oh' = take (Suc i) ?oh @ map (\<lambda>j. (replicate n 0)[j := 1]) js"
    by blast
  have ilt: "i < length oh" using Cons.prems(2) by simp
  have "oh ! i = replicate n 0" using Cons.prems(3) ilt by simp
  then have "take (Suc i) ?oh = take i oh @ [(replicate n 0)[j := 1]]"
    using ilt by (simp add: take_Suc_conv_app_nth)
  with j js oh' show ?case by simp
qed

lemma one_hot_loop_total:
  "\<forall>x \<in> set ss. py_in x u \<Longrightarrow> \<exists>oh'. one_hot_loop i ss u oh = Inr oh'"
proof (induction ss arbitrary: i oh)
  case Nil
  show ?case by simp
next
  case (Cons s ss)
  from Cons.prems obtain j where "list_index u s = Inr j"
    using list_index_py_in by fastforce
  with Cons show ?case by simp
qed

lemma unit_row_add:
  "map2 (+) ((replicate n (0::real))[j := 1]) (map f [0..<n]) =
   map (\<lambda>c. (if c = j then 1 else 0) + f c) [0..<n]"
  by (rule nth_equalityI) (auto simp: nth_list_update)

lemma sum_unit_rows:
  "foldr (\<lambda>row acc. map2 (+) row acc) (map (\<lambda>j. (replicate n (0::real))[j := 1]) js)
     (replicate n 0) = map (\<lambda>c. real (count_list js c)) [0..<n]"
proof (induction js)
  case Nil
  show ?case by (rule nth_equalityI) auto
next
  case (Cons j js)
  show ?case by (simp add: Cons unit_row_add)
qed

lemma count_indices:
  "sequenceE (map (list_index u) ss) = Inr js \<Longrightarrow> distinct u \<Longrightarrow> c < length u \<Longrightarrow>
   count_list js c = count_list ss (JStr (u ! c))"
proof (induction ss arbitrary: js)
  case Nil
  then show ?case by auto
next
  case (Cons s ss)
  from Cons.prems(1) obtain j js' where j: "list_index u s = Inr j"
    and js': "sequenceE (map (list_index u) ss) = Inr js'" and js: "js = j # js'"
    by (auto split: sum.splits)
  from list_index_Inr[OF j] have jl: "j < length u" and s: "s = JStr (u ! j)" by auto
  have "(j = c) = (s = JStr (u ! c))"
    using s jl Cons.prems(2,3) by (auto simp: nth_eq_iff_index_eq)
  with Cons.IH[OF js' Cons.prems(2,3)] js show ?case by auto
qed

lemma one_hot_encode_combined_sum:
  assumes "one_hot_encode_combined strings unique_strings = Inr t"
  shows "\<exists>js. sequenceE (map (list_index unique_strings) strings) = Inr js \<and>
           t = [map (\<lambda>c. real (count_list js c)) [0..<length unique_strings]]"
proof -
  let ?n = "length unique_strings"
  from assms obtain oh where
    oh: "one_hot_loop 0 strings unique_strings (torch_zeros (length strings) ?n) = Inr oh"
    and t: "t = torch_sum_dim0_keepdim ?n oh"
    by (auto simp: one_hot_encode_combined_def bindE_def split: sum.splits)
  have "\<exists>js. sequenceE (map (list_index unique_strings) strings) = Inr js \<and>
        oh = take 0 (torch_zeros (length strings) ?n) @ map (\<lambda>j. (replicate ?n 0)[j := 1]) js"
    by (rule one_hot_loop_Inr[OF oh]) (simp_all add: torch_zeros_def)
  then obtain js where js: "sequenceE (map (list_index unique_strings) strings) = Inr js"
    and oh': "oh = map (\<lambda>j. (replicate ?n 0)[j := 1]) js" by auto
  have "t = [map (\<lambda>c. real (count_list js c)) [0..<?n]]"
    using t oh' by (simp add: torch_sum_dim0_keepdim_def sum_unit_rows)
  with js show ?thesis by blast
qed

lemma one_hot_encode_combined_row:
  "one_hot_encode_combined pp u = Inr t \<Longrightarrow> \<exists>b. t = [b] \<and> length b = length u"
  by (drule one_hot_encode_combined_sum) auto

lemma one_hot_encode_combined_total:
  "\<forall>x \<in> set ss. py_in x u \<Longrightarrow> \<exists>b. one_hot_encode_combined ss u = Inr [b]"
proof -
  assume "\<forall>x \<in> set ss. py_in x u"
  from one_hot_loop_total[OF this]
  obtain oh where "one_hot_loop 0 ss u (torch_zeros (length ss) (length u)) = Inr oh"
    by blast
  then show ?thesis
    by (simp add: one_hot_encode_combined_def bindE_def torch_sum_dim0_keepdim_def)
qed

lemma one_hot_encode_single:
  "one_hot_encode [s] u =
     (case list_index u s of Inl e \<Rightarrow> Inl e | Inr j \<Rightarrow> Inr [(replicate (length u) 0)[j := 1]])"
  by (simp add: one_hot_encode_def torch_zeros_def split: sum.splits)

lemma one_hot_encode_single_Inr:
  "one_hot_encode [s] u = Inr t \<Longrightarrow> \<exists>b. one_hot_at u s = Some b \<and> t = [b]"
  by (auto simp: one_hot_encode_single one_hot_at_def split: sum.splits)

lemma one_hot_at_length: "one_hot_at u s = Some b \<Longrightarrow> length b = length u"
  by (auto simp: one_hot_at_def split: sum.splits)

lemma one_hot_at_py_in: "py_in s u \<Longrightarrow> \<exists>b. one_hot_encode [s] u = Inr [b]"
  by (drule list_index_py_in) (auto simp: one_hot_encode_single)

lemma float_overflow_pos: "0 < float_overflow"
  unfolding float_overflow_def by simp

lemma float_overflow_gt_1: "1 < float_overflow"
  unfolding float_overflow_def by simp

lemma int_to_float_Inr: "\<bar>n\<bar> < float_overflow \<Longrightarrow> int_to_float n = Inr (real_of_int n)"
  by (simp add: int_to_float_def)

lemma int_truediv_Inr:
  assumes "\<bar>n\<bar> < float_overflow" "c \<noteq> 0"
  shows "int_truediv n c = Inr (real_of_int n / real_of_int c)"
proof -
  have "1 \<le> \<bar>c\<bar>" using assms(2) by simp
  then have "1 * float_overflow \<le> \<bar>c\<bar> * float_overflow"
    using float_overflow_pos by (intro mult_right_mono) simp_all
  then have "\<bar>n\<bar> < \<bar>c\<bar> * float_overflow" using assms(1) by simp
  then show ?thesis using assms(2) by (simp add: int_truediv_def)
qed

lemma torch_scalar_infer:
  "torch_scalar v = Inr x \<Longrightarrow> \<exists>ty. infer_scalar_type v = Inr ty"
  by (cases v) simp_all

lemma torch_scalars_infer:
  "map torch_scalar row = map Inr nums \<Longrightarrow> \<exists>tys. sequenceE (map infer_scalar_type row) = Inr tys"
proof (induction row arbitrary: nums)
  case Nil
  show ?case by simp
next
  case (Cons v row)
  from Cons.prems obtain x nums' where x: "torch_scalar v = Inr x"
    and r: "map torch_scalar row = map Inr nums'" by (cases nums) auto
  from torch_scalar_infer[OF x] obtain ty where "infer_scalar_type v = Inr ty" by blast
  moreover from Cons.IH[OF r] obtain tys where "sequenceE (map infer_scalar_type row) = Inr tys"
    by blast
  ultimately show ?case by simp
qed

lemma torch_tensor_float_single:
  "torch_tensor_float [row] = Inr t \<longleftrightarrow>
     (\<exists>nums. map torch_scalar row = map Inr nums \<and> t = [nums])"
proof
  assume "torch_tensor_float [row] = Inr t"
  then obtain v where v: "sequenceE [sequenceE (map torch_scalar row)] = Inr v" and t: "t = v"
    by (auto simp: torch_tensor_float_def bindE_Inr_iff split: if_splits)
  from v obtain nums where "sequenceE (map torch_scalar row) = Inr nums" "v = [nums]"
    by (auto split: sum.splits)
  then show "\<exists>nums. map torch_scalar row = map Inr nums \<and> t = [nums]"
    using t by (auto simp: sequenceE_Inr_iff)
next
  assume "\<exists>nums. map torch_scalar row = map Inr nums \<and> t = [nums]"
  then obtain nums where n: "map torch_scalar row = map Inr nums" and t: "t = [nums]" by blast
  from torch_scalars_infer[OF n] obtain tys where
    "sequenceE (map infer_scalar_type row) = Inr tys" by blast
  then show "torch_tensor_float [row] = Inr t"
    using n t by (simp add: torch_tensor_float_def bindE_def sequenceE_map_Inr)
qed

lemma torch_cat_dim1_rows:
  "torch_cat_dim1 [[a], [b], [c], [d], [e], [f], [g]] = Inr [a @ b @ c @ d @ e @ f @ g]"
  by (simp add: torch_cat_dim1_def)

lemma length_data_row: "length (data_row X p) = 23"
  by (simp add: data_row_def)

text \<open>What a successful run of the encoder has read and built.\<close>

lemma payload_to_tensor_Inr:
  assumes "payload_to_tensor X r = Inr t"
  shows "\<exists>info p row nums mb sch sn ct sp pp b1 b2 b3 b4 b5 b6.
     subscript r ''sdk_api_job_info'' = Inr info \<and>
     subscript info ''payload'' = Inr p \<and>
     data_row X p = map Inr row \<and>
     map torch_scalar row = map Inr nums \<and>
     subscript info ''model_baseline'' = Inr mb \<and>
     subscript p ''scheduler'' = Inr sch \<and>
     subscript p ''sampler_name'' = Inr sn \<and>
     py_get p ''control_type'' (JStr ''None'') = Inr ct \<and>
     py_get info ''source_processing'' (JStr ''txt2img'') = Inr sp \<and>
     bindE (py_get p ''post_processing'' (JList [])) py_slice_all = Inr pp \<and>
     one_hot_at KNOWN_MODEL_BASELINES
       (if py_in mb KNOWN_MODEL_BASELINES then mb else JStr ''stable_diffusion_xl'') = Some b1 \<and>
     one_hot_at (KNOWN_SAMPLERS X)
       (if py_in sn (KNOWN_SAMPLERS X) then sn else JStr ''k_euler'') = Some b2 \<and>
     one_hot_at KNOWN_SCHEDULERS sch = Some b3 \<and>
     one_hot_at (KNOWN_CONTROL_TYPES X) (if ct \<noteq> JNull then ct else JStr ''None'') = Some b4 \<and>
     one_hot_at (KNOWN_SOURCE_PROCESSING X) sp = Some b5 \<and>
     one_hot_encode_combined pp KNOWN_POST_PROCESSORS = Inr [b6] \<and>
     t = [nums @ b1 @ b2 @ b3 @ b4 @ b5 @ b6]"
proof -
  from assms[unfolded payload_to_tensor_def Let_def]
  obtain info p row mb sch sn ct sp ppv pp t0 t1 t2 t3 t4 t5 t6 where
    info: "subscript r ''sdk_api_job_info'' = Inr info"
    and p: "subscript info ''payload'' = Inr p"
    and row: "sequenceE (data_row X p) = Inr row"
    and mb: "subscript info ''model_baseline'' = Inr mb"
    and sch: "subscript p ''scheduler'' = Inr sch"
    and sn: "subscript p ''sampler_name'' = Inr sn"
    and ct: "py_get p ''control_type'' (JStr ''None'') = Inr ct"
    and sp: "py_get info ''source_processing'' (JStr ''txt2img'') = Inr sp"
    and ppv: "py_get p ''post_processing'' (JList []) = Inr ppv"
    and pp: "py_slice_all ppv = Inr pp"
    and t0: "torch_tensor_float [row] = Inr t0"
    and t1: "one_hot_encode [if py_in mb KNOWN_MODEL_BASELINES then mb
            else JStr ''stable_diffusion_xl''] KNOWN_MODEL_BASELINES = Inr t1"
    and t2: "one_hot_encode [if py_in sn (KNOWN_SAMPLERS X) then sn else JStr ''k_euler'']
               (KNOWN_SAMPLERS X) = Inr t2"
    and t3: "one_hot_encode [sch] KNOWN_SCHEDULERS = Inr t3"
    and t4: "one_hot_encode [if ct \<noteq> JNull then ct else JStr ''None'']
               (KNOWN_CONTROL_TYPES X) = Inr t4"
    and t5: "one_hot_encode [sp] (KNOWN_SOURCE_PROCESSING X) = Inr t5"
    and t6: "one_hot_encode_combined pp KNOWN_POST_PROCESSORS = Inr t6"
    and t: "torch_cat_dim1 [t0, t1, t2, t3, t4, t5, t6] = Inr t"
    by (elim bindE_InrE) blast
  from t0 obtain nums where nums: "map torch_scalar row = map Inr nums" and t0': "t0 = [nums]"
    by (auto simp: torch_tensor_float_single)
  from one_hot_encode_single_Inr[OF t1] obtain b1 where b1: "one_hot_at KNOWN_MODEL_BASELINES
       (if py_in mb KNOWN_MODEL_BASELINES then mb else JStr ''stable_diffusion_xl'') = Some b1"
    and t1': "t1 = [b1]" by blast
  from one_hot_encode_single_Inr[OF t2] obtain b2 where b2: "one_hot_at (KNOWN_SAMPLERS X)
       (if py_in sn (KNOWN_SAMPLERS X) then sn else JStr ''k_euler'') = Some b2"
    and t2': "t2 = [b2]" by blast
  from one_hot_encode_single_Inr[OF t3] obtain b3 where
    b3: "one_hot_at KNOWN_SCHEDULERS sch = Some b3" and t3': "t3 = [b3]" by blast
  from one_hot_encode_single_Inr[OF t4] obtain b4 where
    b4: "one_hot_at (KNOWN_CONTROL_TYPES X) (if ct \<noteq> JNull then ct else JStr ''None'') = Some b4"
    and t4': "t4 = [b4]" by blast
  from one_hot_encode_single_Inr[OF t5] obtain b5 where
    b5: "one_hot_at (KNOWN_SOURCE_PROCESSING X) sp = Some b5"
    and t5': "t5 = [b5]" by blast
  from one_hot_encode_combined_row[OF t6] obtain b6 where t6': "t6 = [b6]" by blast
  have tt: "t = [nums @ b1 @ b2 @ b3 @ b4 @ b5 @ b6]"
    using t unfolding t0' t1' t2' t3' t4' t5' t6' torch_cat_dim1_rows by simp
  have ppb: "bindE (py_get p ''post_processing'' (JList [])) py_slice_all = Inr pp"
    using ppv pp by (simp add: bindE_def)
  have rw: "data_row X p = map Inr row" using row by (simp add: sequenceE_Inr_iff)
  show ?thesis
    using info p rw nums mb sch sn ct sp ppb b1 b2 b3 b4 b5 t6[unfolded t6'] tt by blast
qed

lemma subscript_lookup: "subscript x k = Inr v \<longleftrightarrow> lookup x k = Some v"
  by (cases x) (auto split: option.splits)

lemma subscript_is_dict: "subscript x k = Inr v \<Longrightarrow> is_dict x"
  by (cases x) auto

lemma py_get_dict:
  "is_dict x \<Longrightarrow> py_get x k d = Inr (case lookup x k of None \<Rightarrow> d | Some v \<Rightarrow> v)"
  by (cases x) (auto split: option.splits)

lemma get_flag_dict:
  "is_dict p \<Longrightarrow> get_flag p k =
     Inr (JFloat (case lookup p k of None \<Rightarrow> 1 | Some v \<Rightarrow> if py_truthy v then 1 else 0))"
  by (simp add: get_flag_def py_get_dict bindE_def split: option.splits)

lemma numeric_entry:
  assumes "data_row X p = map Inr row" "map torch_scalar row = map Inr nums"
    and "i < 23" "data_row X p ! i = Inr (JFloat x)"
  shows "length nums = 23 \<and> nums ! i = x"
proof -
  have lr: "length row = 23" using assms(1) length_data_row[of X p] by (metis length_map)
  have ln: "length nums = 23" using assms(2) lr by (metis length_map)
  have "row ! i = JFloat x" using assms(1,3,4) lr by simp
  moreover have "torch_scalar (row ! i) = Inr (nums ! i)"
    using assms(2,3) lr ln by (metis nth_map)
  ultimately show ?thesis using ln by simp
qed

text \<open>The shape of every encoded record: one row, 23 numbers and six blocks.\<close>

lemma encoder_shape:
  assumes "payload_to_tensor X r = Inr t"
  shows "\<exists>row nums b1 b2 b3 b4 b5 b6.
     is_dict (job_info r) \<and> is_dict (job_payload r) \<and>
     data_row X (job_payload r) = map Inr row \<and> map torch_scalar row = map Inr nums \<and>
     length nums = 23 \<and> length b1 = length KNOWN_MODEL_BASELINES \<and>
     length b2 = length (KNOWN_SAMPLERS X) \<and> length b3 = length KNOWN_SCHEDULERS \<and>
     length b4 = length (KNOWN_CONTROL_TYPES X) \<and>
     length b5 = length (KNOWN_SOURCE_PROCESSING X) \<and>
     length b6 = length KNOWN_POST_PROCESSORS \<and>
     one_hot_at KNOWN_MODEL_BASELINES
       (case lookup (job_info r) ''model_baseline'' of None \<Rightarrow> JNull
        | Some mb \<Rightarrow> if py_in mb KNOWN_MODEL_BASELINES then mb else JStr ''stable_diffusion_xl'')
       = Some b1 \<and>
     one_hot_at (KNOWN_SAMPLERS X)
       (case lookup (job_payload r) ''sampler_name'' of None \<Rightarrow> JNull
        | Some sn \<Rightarrow> if py_in sn (KNOWN_SAMPLERS X) then sn else JStr ''k_euler'') = Some b2 \<and>
     one_hot_at KNOWN_SCHEDULERS
       (case lookup (job_payload r) ''scheduler'' of None \<Rightarrow> JNull | Some v \<Rightarrow> v) = Some b3 \<and>
     one_hot_at (KNOWN_CONTROL_TYPES X)
       (case lookup (job_payload r) ''control_type'' of None \<Rightarrow> JStr ''None''
        | Some v \<Rightarrow> if v \<noteq> JNull then v else JStr ''None'') = Some b4 \<and>
     one_hot_at (KNOWN_SOURCE_PROCESSING X)
       (case lookup (job_info r) ''source_processing'' of None \<Rightarrow> JStr ''txt2img''
        | Some v \<Rightarrow> v) = Some b5 \<and>
     (\<exists>pp. bindE (py_get (job_payload r) ''post_processing'' (JList [])) py_slice_all = Inr pp \<and>
        one_hot_encode_combined pp KNOWN_POST_PROCESSORS = Inr [b6]) \<and>
     t = [nums @ b1 @ b2 @ b3 @ b4 @ b5 @ b6]"
proof -
  from payload_to_tensor_Inr[OF assms]
  obtain info p row nums mb sch sn ct sp pp b1 b2 b3 b4 b5 b6 where
    info: "subscript r ''sdk_api_job_info'' = Inr info"
    and p: "subscript info ''payload'' = Inr p"
    and row: "data_row X p = map Inr row"
    and nums: "map torch_scalar row = map Inr nums"
    and mb: "subscript info ''model_baseline'' = Inr mb"
    and sch: "subscript p ''scheduler'' = Inr sch"
    and sn: "subscript p ''sampler_name'' = Inr sn"
    and ct: "py_get p ''control_type'' (JStr ''None'') = Inr ct"
    and sp: "py_get info ''source_processing'' (JStr ''txt2img'') = Inr sp"
    and pp: "bindE (py_get p ''post_processing'' (JList [])) py_slice_all = Inr pp"
    and b1: "one_hot_at KNOWN_MODEL_BASELINES
       (if py_in mb KNOWN_MODEL_BASELINES then mb else JStr ''stable_diffusion_xl'') = Some b1"
    and b2: "one_hot_at (KNOWN_SAMPLERS X)
       (if py_in sn (KNOWN_SAMPLERS X) then sn else JStr ''k_euler'') = Some b2"
    and b3: "one_hot_at KNOWN_SCHEDULERS sch = Some b3"
    and b4: "one_hot_at (KNOWN_CONTROL_TYPES X) (if ct \<noteq> JNull then ct else JStr ''None'') = Some b4"
    and b5: "one_hot_at (KNOWN_SOURCE_PROCESSING X) sp = Some b5"
    and b6: "one_hot_encode_combined pp KNOWN_POST_PROCESSORS = Inr [b6]"
    and t: "t = [nums @ b1 @ b2 @ b3 @ b4 @ b5 @ b6]"
    by blast
  have ji: "job_info r = info" and jp: "job_payload r = p"
    using info p by (simp_all add: job_info_def job_payload_def subscript_lookup)
  have di: "is_dict info" using p by (rule subscript_is_dict)
  have dp: "is_dict p" using sch by (rule subscript_is_dict)
  have lr: "length row = 23" using row length_data_row[of X p] by (metis length_map)
  have ln: "length nums = 23" using nums lr by (metis length_map)
  have l6: "length b6 = length KNOWN_POST_PROCESSORS"
    using one_hot_encode_combined_row[OF b6] by simp
  have mb': "lookup info ''model_baseline'' = Some mb" using mb by (simp add: subscript_lookup)
  have sn': "lookup p ''sampler_name'' = Some sn" using sn by (simp add: subscript_lookup)
  have c1: "(case lookup info ''model_baseline'' of None \<Rightarrow> JNull
        | Some mb \<Rightarrow> if py_in mb KNOWN_MODEL_BASELINES then mb else JStr ''stable_diffusion_xl'')
       = (if py_in mb KNOWN_MODEL_BASELINES then mb else JStr ''stable_diffusion_xl'')"
    by (simp only: mb' option.case)
  have c2: "(case lookup p ''sampler_name'' of None \<Rightarrow> JNull
        | Some sn \<Rightarrow> if py_in sn (KNOWN_SAMPLERS X) then sn else JStr ''k_euler'')
       = (if py_in sn (KNOWN_SAMPLERS X) then sn else JStr ''k_euler'')"
    by (simp only: sn' option.case)
  have ppx: "\<exists>pp. bindE (py_get p ''post_processing'' (JList [])) py_slice_all = Inr pp \<and>
        one_hot_encode_combined pp KNOWN_POST_PROCESSORS = Inr [b6]"
    using pp b6 by blast
  have sch': "lookup p ''scheduler'' = Some sch" using sch by (simp add: subscript_lookup)
  have c3: "(case lookup p ''scheduler'' of None \<Rightarrow> JNull | Some v \<Rightarrow> v) = sch"
    by (simp only: sch' option.case)
  have c4: "(case lookup p ''control_type'' of None \<Rightarrow> JStr ''None''
        | Some v \<Rightarrow> if v \<noteq> JNull then v else JStr ''None'')
       = (if ct \<noteq> JNull then ct else JStr ''None'')"
    using ct py_get_dict[OF dp, of "''control_type''" "JStr ''None''"]
    by (auto split: option.splits)
  have c5: "(case lookup info ''source_processing'' of None \<Rightarrow> JStr ''txt2img''
        | Some v \<Rightarrow> v) = sp"
    using sp py_get_dict[OF di, of "''source_processing''" "JStr ''txt2img''"] by simp
  show ?thesis
    unfolding ji jp c1 c2 c3 c4 c5
    using di dp row nums ln one_hot_at_length[OF b1] one_hot_at_length[OF b2]
      one_hot_at_length[OF b3] one_hot_at_length[OF b4] one_hot_at_length[OF b5] l6
      b1 b2 b3 b4 b5 ppx t
    by blast
qed

lemma encoder_length:
  assumes "payload_to_tensor X r = Inr t"
  shows "\<exists>row. t = [row] \<and> length row = feature_width X"
  using encoder_shape[OF assms] by (auto simp: feature_width_def)

lemma distinct_KPP: "distinct KNOWN_POST_PROCESSORS"
  by (simp add: KNOWN_POST_PROCESSORS_def)

lemma one_hot_encode_combined_counts:
  assumes "one_hot_encode_combined strings unique_strings = Inr t" "distinct unique_strings"
  shows "t = [map (\<lambda>u. real (count_list strings (JStr u))) unique_strings]"
proof -
  from one_hot_encode_combined_sum[OF assms(1)] obtain js where
    js: "sequenceE (map (list_index unique_strings) strings) = Inr js"
    and t: "t = [map (\<lambda>c. real (count_list js c)) [0..<length unique_strings]]" by blast
  have "map (\<lambda>c. real (count_list js c)) [0..<length unique_strings] =
       map (\<lambda>u. real (count_list strings (JStr u))) unique_strings"
    by (rule nth_equalityI) (auto simp: count_indices[OF js assms(2)])
  with t show ?thesis by simp
qed

section \<open>The post-processor block counts repeated entries\<close>

text \<open>
  Claim C5. \<^verbatim>\<open>one_hot_encode_combined\<close> sums one one-hot row per entry of the list, so the
  value at the position of a post-processor is the number of times the list names it, in
  the function's result and in the last block of the feature vector alike; the list
  GFPGAN, GFPGAN gives 2 at the position of GFPGAN.
\<close>

theorem post_processing_counts:
  "(one_hot_encode_combined strings KNOWN_POST_PROCESSORS = Inr t \<longrightarrow>
      t = [map (\<lambda>u. real (count_list strings (JStr u))) KNOWN_POST_PROCESSORS])
   \<and> (payload_to_tensor X r = Inr [row] \<longrightarrow>
        lookup (job_payload r) ''post_processing'' = Some (JList strings) \<longrightarrow>
        post_processor_block X row =
          map (\<lambda>u. real (count_list strings (JStr u))) KNOWN_POST_PROCESSORS)"
proof (intro conjI impI)
  assume "one_hot_encode_combined strings KNOWN_POST_PROCESSORS = Inr t"
  then show "t = [map (\<lambda>u. real (count_list strings (JStr u))) KNOWN_POST_PROCESSORS]"
    by (rule one_hot_encode_combined_counts) (rule distinct_KPP)
next
  assume enc: "payload_to_tensor X r = Inr [row]"
    and pp: "lookup (job_payload r) ''post_processing'' = Some (JList strings)"
  from encoder_shape[OF enc] obtain nums b1 b2 b3 b4 b5 b6 pp' where
    dp: "is_dict (job_payload r)"
    and ln: "length nums = 23" "length b1 = length KNOWN_MODEL_BASELINES"
      "length b2 = length (KNOWN_SAMPLERS X)" "length b3 = length KNOWN_SCHEDULERS"
      "length b4 = length (KNOWN_CONTROL_TYPES X)"
      "length b5 = length (KNOWN_SOURCE_PROCESSING X)"
    and sl: "bindE (py_get (job_payload r) ''post_processing'' (JList [])) py_slice_all = Inr pp'"
    and b6: "one_hot_encode_combined pp' KNOWN_POST_PROCESSORS = Inr [b6]"
    and row: "[row] = [nums @ b1 @ b2 @ b3 @ b4 @ b5 @ b6]"
    by blast
  have "pp' = strings" using sl pp dp by (simp add: py_get_dict bindE_def)
  with b6 have "b6 = map (\<lambda>u. real (count_list strings (JStr u))) KNOWN_POST_PROCESSORS"
    using one_hot_encode_combined_counts[OF _ distinct_KPP] by fastforce
  moreover have "post_processor_block X row = b6"
    using row ln by (simp add: post_processor_block_def)
  ultimately show "post_processor_block X row =
      map (\<lambda>u. real (count_list strings (JStr u))) KNOWN_POST_PROCESSORS" by simp
qed

theorem post_processing_counts_witness:
  "one_hot_encode_combined [JStr ''GFPGAN'', JStr ''GFPGAN''] KNOWN_POST_PROCESSORS
     = Inr [[0, 0, 0, 0, 0, 0, 2, 0]]
   \<and> (\<exists>row. payload_to_tensor sample_externals gfpgan_twice = Inr [row]
         \<and> lookup (job_payload gfpgan_twice) ''post_processing''
             = Some (JList [JStr ''GFPGAN'', JStr ''GFPGAN''])
         \<and> post_processor_block sample_externals row = [0, 0, 0, 0, 0, 0, 2, 0])"
proof -
  let ?g = "[JStr ''GFPGAN'', JStr ''GFPGAN'']"
  let ?row = "[1 / 2, 1 / 2, 3 / 10, 7 / 30, 1, 1, 1, 1, 0, 0, 0, 0, 0, 0, 1, 1, 1,
       1, 1, 1, 1, 1, 1, 0, 0, 1, 0, 0, 0, 1, 0, 1, 0, 1, 0, 0, 0, 0, 0, 1,
       0, 0, 0, 0, 0, 0, 2, 0] :: real list"
  have cnt: "map (\<lambda>u. real (count_list ?g (JStr u))) KNOWN_POST_PROCESSORS
               = [0, 0, 0, 0, 0, 0, 2, 0]"
    by (simp add: KNOWN_POST_PROCESSORS_def)
  have h1: "one_hot_encode_combined ?g KNOWN_POST_PROCESSORS = Inr [[0, 0, 0, 0, 0, 0, 2, 0]]"
    by code_simp
  have h2: "payload_to_tensor sample_externals gfpgan_twice = Inr [?row]"
    by code_simp
  have h3: "lookup (job_payload gfpgan_twice) ''post_processing'' = Some (JList ?g)"
    by code_simp
  have "post_processor_block sample_externals ?row
          = map (\<lambda>u. real (count_list ?g (JStr u))) KNOWN_POST_PROCESSORS"
    using post_processing_counts[of ?g "[[0, 0, 0, 0, 0, 0, 2, 0]]" sample_externals
      gfpgan_twice ?row] h2 h3 by blast
  then have "post_processor_block sample_externals ?row = [0, 0, 0, 0, 0, 0, 2, 0]"
    by (simp only: cnt)
  with h1 h2 h3 show ?thesis by blast
qed

lemma data_row_flag:
  "(i, k) \<in> set flag_fields \<Longrightarrow> i < 23 \<and> data_row X p ! i = get_flag p k"
  by (auto simp: flag_fields_def data_row_def)

lemma flag_entry:
  assumes "payload_to_tensor X r = Inr [row]" "(i, k) \<in> set flag_fields"
  shows "row ! i = (case lookup (job_payload r) k of None \<Rightarrow> 1
                    | Some v \<Rightarrow> if py_truthy v then 1 else 0)"
proof -
  from encoder_shape[OF assms(1)] obtain rw nums b1 b2 b3 b4 b5 b6 where
    dp: "is_dict (job_payload r)"
    and rw: "data_row X (job_payload r) = map Inr rw"
    and nums: "map torch_scalar rw = map Inr nums"
    and row: "[row] = [nums @ b1 @ b2 @ b3 @ b4 @ b5 @ b6]"
    by blast
  let ?x = "case lookup (job_payload r) k of None \<Rightarrow> 1 | Some v \<Rightarrow> if py_truthy v then 1 else (0::real)"
  from data_row_flag[OF assms(2)] have i: "i < 23"
    and e: "data_row X (job_payload r) ! i = Inr (JFloat ?x)"
    by (simp_all add: get_flag_dict[OF dp])
  from numeric_entry[OF rw nums i e] have "length nums = 23" "nums ! i = ?x" by simp_all
  with row i show ?thesis by (simp add: nth_append)
qed

section \<open>Flags that are absent count as set\<close>

text \<open>
  Claim C4. In every feature vector the encoder returns, each of the eight flags (hires_fix,
  hires_fix_denoising_strength, image_is_control, return_control_map, transparent,
  source_image, source_mask, tiling) is 1 when the payload has no such key, and 1 or 0 by
  the truth value of the field when it has.
\<close>

theorem absent_flag_is_true:
  assumes "payload_to_tensor X r = Inr [row]"
  shows "\<forall>(i, k) \<in> set flag_fields.
           (lookup (job_payload r) k = None \<longrightarrow> row ! i = 1)
         \<and> (\<forall>v. lookup (job_payload r) k = Some v \<longrightarrow>
                row ! i = (if py_truthy v then 1 else 0))"
proof (clarify, intro conjI allI impI)
  fix i k assume ik: "(i, k) \<in> set flag_fields"
  { assume "lookup (job_payload r) k = None"
    then show "row ! i = 1" using flag_entry[OF assms ik] by simp }
  { fix v assume "lookup (job_payload r) k = Some v"
    then show "row ! i = (if py_truthy v then 1 else 0)"
      using flag_entry[OF assms ik] by simp }
qed

theorem absent_flag_is_true_witness:
  "\<exists>row. payload_to_tensor sample_externals minimal_record = Inr [row]
     \<and> (\<forall>(i, k) \<in> set flag_fields.
           lookup (job_payload minimal_record) k = None \<and> row ! i = 1)"
proof -
  let ?row = "[1 / 2, 1 / 2, 3 / 10, 7 / 30, 1, 1, 1, 1, 0, 0, 0, 0, 0, 0, 1, 1, 1,
       1, 1, 1, 1, 1, 1, 0, 0, 1, 0, 0, 0, 1, 0, 1, 0, 1, 0, 0, 0, 0, 0, 1,
       0, 0, 0, 0, 0, 0, 0, 0] :: real list"
  have enc: "payload_to_tensor sample_externals minimal_record = Inr [?row]"
    by code_simp
  have absent: "\<forall>(i, k) \<in> set flag_fields. lookup (job_payload minimal_record) k = None"
    by code_simp
  from absent_flag_is_true[OF enc] absent
  have "\<forall>(i, k) \<in> set flag_fields.
          lookup (job_payload minimal_record) k = None \<and> ?row ! i = 1"
    by fastforce
  with enc show ?thesis by blast
qed

section \<open>The hires-fix strength is read as a truth value\<close>

text \<open>
  Claim C10. Position 15 of the feature vector, the field hires_fix_denoising_strength, is
  1 when the field is absent, 0 when it is null, and for a number it is 0 when the number
  is zero and 1 otherwise: the magnitude is lost.
\<close>

theorem hires_fix_denoising_strength_truthiness:
  assumes "payload_to_tensor X r = Inr [row]"
  shows "(lookup (job_payload r) ''hires_fix_denoising_strength'' = None \<longrightarrow> row ! 15 = 1)
       \<and> (lookup (job_payload r) ''hires_fix_denoising_strength'' = Some JNull \<longrightarrow> row ! 15 = 0)
       \<and> (\<forall>v x. lookup (job_payload r) ''hires_fix_denoising_strength'' = Some v \<longrightarrow>
                 as_number v = Some x \<longrightarrow> row ! 15 = (if x = 0 then 0 else 1))"
proof -
  have ik: "(15, ''hires_fix_denoising_strength'') \<in> set flag_fields"
    by (simp add: flag_fields_def)
  have num: "as_number v = Some x \<Longrightarrow> py_truthy v = (x \<noteq> 0)" for v x
    by (cases v) (auto split: if_splits)
  show ?thesis using flag_entry[OF assms ik] by (auto simp: num)
qed

theorem hires_fix_denoising_strength_truthiness_witness:
  "\<exists>row. payload_to_tensor sample_externals hires_strength_record = Inr [row]
     \<and> lookup (job_payload hires_strength_record) ''hires_fix_denoising_strength''
          = Some (JFloat (65 / 100))
     \<and> as_number (JFloat (65 / 100)) = Some (65 / 100)
     \<and> row ! 15 = 1"
proof -
  let ?row = "[1 / 2, 1 / 2, 3 / 10, 7 / 30, 1, 1, 1, 1, 0, 0, 0, 0, 0, 0, 1, 1, 1,
       1, 1, 1, 1, 1, 1, 0, 0, 1, 0, 0, 0, 1, 0, 1, 0, 1, 0, 0, 0, 0, 0, 1,
       0, 0, 0, 0, 0, 0, 0, 0] :: real list"
  have enc: "payload_to_tensor sample_externals hires_strength_record = Inr [?row]"
    by code_simp
  have lk: "lookup (job_payload hires_strength_record) ''hires_fix_denoising_strength''
          = Some (JFloat (65 / 100))"
    by code_simp
  have "?row ! 15 = (if (65 / 100 :: real) = 0 then 0 else 1)"
    using hires_fix_denoising_strength_truthiness[OF enc] lk by simp
  then have "?row ! 15 = 1" by simp
  with enc lk show ?thesis by (intro exI[of _ ?row]) simp
qed

lemma py_round2_grid: "\<exists>k::int. py_round2 x = real_of_int k / 100"
  by (simp add: py_round2_def Let_def) 

lemma py_round2_near: "\<bar>py_round2 x - x\<bar> \<le> 1 / 200"
proof -
  define f where "f = \<lfloor>x * 100\<rfloor>"
  define d where "d = x * 100 - real_of_int f"
  define R where "R = py_round2 x"
  have d: "0 \<le> d" "d < 1" unfolding d_def f_def by linarith+
  have x: "x * 100 = real_of_int f + d" unfolding d_def by simp
  have r: "R = real_of_int (if d < 1/2 then f else if d > 1/2 then f + 1
                   else if even f then f else f + 1) / 100"
    unfolding R_def py_round2_def Let_def d_def f_def by simp
  have "(R * 100 = real_of_int f \<and> d \<le> 1/2) \<or> (R * 100 = real_of_int f + 1 \<and> 1/2 \<le> d)"
    unfolding r by auto
  then have "\<bar>R * 100 - x * 100\<bar> \<le> 1 / 2" using d x by (auto simp: abs_if)
  then have "\<bar>R - x\<bar> * 100 \<le> 1 / 2"
    by (simp add: abs_if field_simps split: if_splits)
  then show ?thesis unfolding R_def by simp
qed

lemma py_round2_negative: "x < - (1 / 200) \<Longrightarrow> py_round2 x < 0"
proof -
  assume x: "x < - (1 / 200)"
  obtain k :: int where k: "py_round2 x = real_of_int k / 100" using py_round2_grid by blast
  from py_round2_near[of x] x have "py_round2 x < 0" by (auto simp: abs_if split: if_splits)
  then show ?thesis .
qed

section \<open>The prediction is the rounded output of the network\<close>

text \<open>
  Claim C9. Whenever the encoder accepts the record, \<^verbatim>\<open>payload_to_time\<close> returns the
  network's output for the feature vector rounded to two decimal places: a multiple of
  1/100 at most 1/200 away from the output. Nothing clamps it: an output below -1/200
  gives a negative result.
\<close>

theorem payload_to_time_rounds_raw_output:
  assumes "payload_to_tensor X r = Inr t"
  shows "\<exists>row. t = [row]
     \<and> payload_to_time X model r = Inr (py_round2 (model row))
     \<and> (\<exists>k::int. py_round2 (model row) = real_of_int k / 100)
     \<and> \<bar>py_round2 (model row) - model row\<bar> \<le> 1 / 200
     \<and> (model row < - (1 / 200) \<longrightarrow> py_round2 (model row) < 0)"
proof -
  from encoder_length[OF assms] obtain row where row: "t = [row]" by blast
  have "payload_to_time X model r = Inr (py_round2 (model row))"
    using assms row by (simp add: payload_to_time_def bindE_def torch_squeeze_def)
  with row show ?thesis
    using py_round2_grid[of "model row"] py_round2_near[of "model row"]
      py_round2_negative[of "model row"] by blast
qed

theorem payload_to_time_rounds_raw_output_witness:
  "\<exists>row. payload_to_tensor sample_externals minimal_record = Inr [row]
     \<and> sample_network row = - (123456 / 100000)
     \<and> payload_to_time sample_externals sample_network minimal_record = Inr (- (123 / 100))"
proof -
  let ?row = "[1 / 2, 1 / 2, 3 / 10, 7 / 30, 1, 1, 1, 1, 0, 0, 0, 0, 0, 0, 1, 1, 1,
       1, 1, 1, 1, 1, 1, 0, 0, 1, 0, 0, 0, 1, 0, 1, 0, 1, 0, 0, 0, 0, 0, 1,
       0, 0, 0, 0, 0, 0, 0, 0] :: real list"
  have enc: "payload_to_tensor sample_externals minimal_record = Inr [?row]"
    by code_simp
  have out: "sample_network ?row = - (123456 / 100000)"
    by (simp add: sample_network_def)
  have rnd: "py_round2 (- (123456 / 100000)) = - (123 / 100)"
    by code_simp
  from payload_to_time_rounds_raw_output[OF enc, of sample_network]
  have "payload_to_time sample_externals sample_network minimal_record
          = Inr (py_round2 (sample_network ?row))" by simp
  then have "payload_to_time sample_externals sample_network minimal_record
          = Inr (- (123 / 100))"
    by (simp only: out rnd)
  with enc out show ?thesis by blast
qed

lemma foldl_append_concat: "foldl (\<lambda>acc i. acc @ f i) a xs = a @ concat (map f xs)"
  by (induction xs arbitrary: a) simp_all

lemma layer_blocks:
  assumes "sizes = pre @ [w] @ hs @ [out]" "length pre = i"
  shows "concat (map (\<lambda>j. [nn_Linear (sizes ! j) (sizes ! (j + 1))]
            @ (if j < length sizes - 2
               then [ReLU] @ (if j > 0 then [Dropout (dropout_l tr j)] else [])
               else [])) [i..<length sizes - 1]) = feed_forward tr i w hs out"
  using assms
proof (induction hs arbitrary: pre w i)
  case Nil
  then have "length sizes - 1 = Suc i" "sizes ! i = w" "sizes ! Suc i = out" "length sizes - 2 = i"
    by (simp_all add: nth_append)
  then show ?case by (simp add: nn_Linear_def)
next
  case (Cons h hs)
  have s: "sizes = (pre @ [w]) @ [h] @ hs @ [out]" using Cons.prems(1) by simp
  have l: "length (pre @ [w]) = Suc i" using Cons.prems(2) by simp
  note IH = Cons.IH[OF s l]
  have len: "length sizes - 1 = Suc (Suc (i + length hs))" "length sizes - 2 = Suc (i + length hs)"
    using Cons.prems by simp_all
  have "i < length sizes - 1" unfolding len by simp
  then have up: "[i..<length sizes - 1] = i # [Suc i..<length sizes - 1]"
    by (rule upt_conv_Cons)
  have el: "sizes ! i = w" "sizes ! (i + 1) = h"
    using Cons.prems by (simp_all add: nth_append)
  have lt: "i < length sizes - 2" unfolding len by simp
  show ?case
    unfolding up list.map concat.simps IH
    using el lt by (simp add: nn_Linear_def)
qed

lemma create_sequential_model_feed_forward:
  "create_sequential_model tr hs n out = feed_forward tr 0 n hs out"
proof -
  have "create_sequential_model tr hs n out =
     concat (map (\<lambda>j. [nn_Linear (([n] @ hs @ [out]) ! j) (([n] @ hs @ [out]) ! (j + 1))]
            @ (if j < length ([n] @ hs @ [out]) - 2
               then [ReLU] @ (if j > 0 then [Dropout (dropout_l tr j)] else [])
               else [])) [0..<length ([n] @ hs @ [out]) - 1])"
    unfolding create_sequential_model_def Let_def
    by (simp only: foldl_append_concat append_Nil append.assoc)
  also have "\<dots> = feed_forward tr 0 n hs out"
    by (rule layer_blocks[where pre = "[]"]) simp_all
  finally show ?thesis .
qed

lemma feed_forward_ne: "feed_forward tr i n hs out \<noteq> []"
  by (cases hs) auto

lemma feed_forward_last:
  "last (feed_forward tr i n hs out) = Linear (last (n # hs)) out True"
  by (induction hs arbitrary: i n) (simp_all add: feed_forward_ne)

lemma feed_forward_counts:
  "length (filter (\<lambda>l. l = ReLU) (feed_forward tr i n hs out)) = length hs
   \<and> length (filter (\<lambda>l. \<exists>a b c. l = Linear a b c) (feed_forward tr i n hs out)) = Suc (length hs)
   \<and> length (filter (\<lambda>l. \<exists>p. l = Dropout p) (feed_forward tr i n hs out))
       = (if i > 0 then length hs else length hs - 1)"
  by (induction hs arbitrary: i n) auto

lemma feed_forward_hd: "\<exists>b rest. feed_forward tr i n hs out = Linear n b True # rest"
  by (cases hs) auto

lemma input_size_width: "input_size X = Inr n \<Longrightarrow> n = feature_width X"
proof -
  assume "input_size X = Inr n"
  then obtain t row where t: "payload_to_tensor X PAYLOAD_EXAMPLE = Inr t"
    and g: "tensor_getitem0 t = Inr row" and n: "n = length row"
    by (auto simp: input_size_def bindE_Inr_iff)
  from encoder_length[OF t] g n show ?thesis by (auto simp: tensor_getitem0_def)
qed

section \<open>The layers the builder returns\<close>

text \<open>
  Claim C6, as the code has it. The builder returns the feed-forward network described
  above: one linear layer per consecutive pair of widths, a ReLU after every hidden layer,
  a dropout layer after every hidden layer but the first, and a last linear layer with
  nothing after it. Every linear layer, the last one too, is built by
  \<^verbatim>\<open>nn.Linear(a, b)\<close> and so has its bias. With no hidden width the network is the
  single linear layer from the input width to the output width.
\<close>

theorem builder_structure:
  "create_sequential_model tr hs n out = feed_forward tr 0 n hs out
   \<and> create_sequential_model tr [] n out = [Linear n out True]
   \<and> last (create_sequential_model tr hs n out) = Linear (last (n # hs)) out True
   \<and> length (filter (\<lambda>l. l = ReLU) (create_sequential_model tr hs n out)) = length hs
   \<and> length (filter (\<lambda>l. \<exists>a b c. l = Linear a b c) (create_sequential_model tr hs n out))
       = Suc (length hs)
   \<and> length (filter (\<lambda>l. \<exists>p. l = Dropout p) (create_sequential_model tr hs n out))
       = length hs - 1"
  using feed_forward_last[of tr 0 n hs out] feed_forward_counts[of tr 0 n hs out]
  by (simp add: create_sequential_model_feed_forward)

theorem builder_structure_witness:
  "create_sequential_model sample_trial [8, 4] 48 1
     = [Linear 48 8 True, ReLU, Linear 8 4 True, ReLU, Dropout (1 / 10), Linear 4 1 True]"
proof -
  have "feed_forward sample_trial 0 48 [8, 4] 1
     = [Linear 48 8 True, ReLU, Linear 8 4 True, ReLU, Dropout (1 / 10), Linear 4 1 True]"
    by (simp add: sample_trial_def)
  with builder_structure[of sample_trial "[8, 4]" 48 1] show ?thesis by simp
qed

text \<open>The claim as the specification words it asks for a last layer without bias; the
  last layer of the network built for the widths 8 and 4 has one.\<close>

theorem final_layer_has_bias:
  "last (create_sequential_model sample_trial [8, 4] 48 1) = Linear 4 1 True
   \<and> last (create_sequential_model sample_trial [8, 4] 48 1) \<noteq> Linear 4 1 False
   \<and> create_sequential_model sample_trial [] 48 1 = [Linear 48 1 True]"
  by code_simp

section \<open>The length of the feature vector\<close>

text \<open>
  Claim C8. Every feature vector the encoder returns is one row whose length is the
  number of numeric fields, 23, plus the sizes of the six vocabularies. The search
  objective reads its input width off the encoding of the example record, so that width
  is this length, and it is the input width of the first layer of the network.
\<close>

theorem feature_length_constant:
  "(payload_to_tensor X r = Inr t \<longrightarrow>
      (\<exists>row. t = [row] \<and> length row = feature_width X
         \<and> length row = length (data_row X (job_payload r))
             + (length KNOWN_MODEL_BASELINES + length (KNOWN_SAMPLERS X)
                + length KNOWN_SCHEDULERS + length (KNOWN_CONTROL_TYPES X)
                + length (KNOWN_SOURCE_PROCESSING X) + length KNOWN_POST_PROCESSORS)))
   \<and> (input_size X = Inr n \<longrightarrow> n = feature_width X)
   \<and> (objective_network X tr = Inr net \<longrightarrow>
        (\<exists>b rest. net = Linear (feature_width X) b True # rest))"
proof (intro conjI impI)
  assume "payload_to_tensor X r = Inr t"
  from encoder_length[OF this]
  show "\<exists>row. t = [row] \<and> length row = feature_width X
         \<and> length row = length (data_row X (job_payload r))
             + (length KNOWN_MODEL_BASELINES + length (KNOWN_SAMPLERS X)
                + length KNOWN_SCHEDULERS + length (KNOWN_CONTROL_TYPES X)
                + length (KNOWN_SOURCE_PROCESSING X) + length KNOWN_POST_PROCESSORS)"
    by (auto simp: feature_width_def length_data_row)
next
  assume "input_size X = Inr n"
  then show "n = feature_width X" by (rule input_size_width)
next
  assume "objective_network X tr = Inr net"
  then obtain n where n: "input_size X = Inr n"
    and net: "net = create_sequential_model tr
                      (map (hidden_layer_size tr) [0..<hidden_layers tr]) n 1"
    by (auto simp: objective_network_def bindE_Inr_iff Let_def)
  from feed_forward_hd[of tr 0 n "map (hidden_layer_size tr) [0..<hidden_layers tr]" 1]
  show "\<exists>b rest. net = Linear (feature_width X) b True # rest"
    unfolding net create_sequential_model_feed_forward input_size_width[OF n] .
qed

theorem feature_length_constant_witness:
  "feature_width sample_externals = 48
   \<and> (\<exists>row. payload_to_tensor sample_externals minimal_record = Inr [row] \<and> length row = 48)
   \<and> input_size sample_externals = Inr 48
   \<and> (\<exists>b rest. objective_network sample_externals sample_trial = Inr (Linear 48 b True # rest))"
proof -
  let ?row = "[1 / 2, 1 / 2, 3 / 10, 7 / 30, 1, 1, 1, 1, 0, 0, 0, 0, 0, 0, 1, 1, 1,
       1, 1, 1, 1, 1, 1, 0, 0, 1, 0, 0, 0, 1, 0, 1, 0, 1, 0, 0, 0, 0, 0, 1,
       0, 0, 0, 0, 0, 0, 0, 0] :: real list"
  let ?net = "[Linear 48 8 True, ReLU, Linear 8 4 True, ReLU, Dropout (1 / 10),
      Linear 4 1 True]"
  have w: "feature_width sample_externals = 48" by code_simp
  have enc: "payload_to_tensor sample_externals minimal_record = Inr [?row]" by code_simp
  have inp: "input_size sample_externals = Inr 48" by code_simp
  have net: "objective_network sample_externals sample_trial = Inr ?net" by code_simp
  note inst = feature_length_constant[of sample_externals minimal_record "[?row]" 48
      sample_trial ?net]
  from inst enc have "length ?row = feature_width sample_externals" by blast
  moreover from inst net have "\<exists>b rest. ?net = Linear (feature_width sample_externals) b True # rest"
    by blast
  ultimately show ?thesis using w enc inp net by auto
qed







section \<open>The score of a trial\<close>




section \<open>Well-formed records are encoded\<close>

lemma numeric_results:
  "\<forall>m \<in> set ms. numeric_result m \<Longrightarrow>
   \<exists>vs nums. ms = map Inr vs \<and> map torch_scalar vs = map Inr nums"
proof (induction ms)
  case Nil
  show ?case by simp
next
  case (Cons m ms)
  then obtain vs nums where vs: "ms = map Inr vs" "map torch_scalar vs = map Inr nums"
    by auto
  from Cons.prems obtain v where v: "m = Inr v" "is_number v"
    by (auto simp: numeric_result_def split: sum.splits)
  then obtain x where "torch_scalar v = Inr x"
    by (cases v) (auto simp: int_to_float_Inr)
  with v vs have "m # ms = map Inr (v # vs) \<and> map torch_scalar (v # vs) = map Inr (x # nums)"
    by simp
  then show ?case by (intro exI[of _ "v # vs"] exI[of _ "x # nums"])
qed

lemma py_truediv_number:
  assumes "is_number v" "c \<noteq> 0" "\<bar>c\<bar> < float_overflow"
  shows "\<exists>q. py_truediv v c = Inr (JFloat q)"
proof (cases v)
  case (JInt n)
  then show ?thesis using assms by (simp add: int_truediv_Inr bindE_def)
next
  case (JBool b)
  have "\<bar>if b then 1 else 0 :: int\<bar> < float_overflow"
    using float_overflow_pos float_overflow_gt_1 by simp
  from int_truediv_Inr[OF this assms(2)] JBool show ?thesis by (simp add: bindE_def)
next
  case (JFloat x)
  then show ?thesis using assms by (simp add: int_to_float_Inr bindE_def)
qed (use assms in simp_all)

lemma required_numeric:
  "lookup p k = Some v \<Longrightarrow> is_number v \<Longrightarrow> c \<noteq> 0 \<Longrightarrow> \<bar>c\<bar> < float_overflow \<Longrightarrow>
   numeric_result (bindE (subscript p k) (\<lambda>v. py_truediv v c))"
  using py_truediv_number[of v c]
  by (cases p) (auto simp: numeric_result_def bindE_def)

lemma strength_numeric:
  "is_dict p \<Longrightarrow> (case lookup p k of None \<Rightarrow> True | Some v \<Rightarrow> v = JNull \<or> is_number v) \<Longrightarrow>
   numeric_result (get_strength p k)"
  by (auto simp: numeric_result_def get_strength_def py_get_dict bindE_def
      split: option.splits)

lemma py_float_floatable: "floatable X v \<Longrightarrow> \<exists>x. py_float X v = Inr (JFloat x)"
  by (cases v) (auto simp: int_to_float_Inr bindE_def)

lemma float_numeric:
  "is_dict p \<Longrightarrow> (case lookup p k of None \<Rightarrow> True | Some v \<Rightarrow> floatable X v) \<Longrightarrow>
   numeric_result (get_float X p k d)"
  by (auto simp: numeric_result_def get_float_def py_get_dict bindE_def
      split: option.splits dest: py_float_floatable)

lemma flag_numeric: "is_dict p \<Longrightarrow> numeric_result (get_flag p k)"
  by (simp add: get_flag_dict numeric_result_def)

lemma order_numeric:
  "is_dict p \<Longrightarrow> numeric_result (bindE (py_get p k d) (\<lambda>v. Inr (JFloat (f v))))"
  by (simp add: py_get_dict bindE_def numeric_result_def)


lemma data_row_numeric:
  assumes "is_dict p"
    and "\<forall>k \<in> set [''height'', ''width'', ''ddim_steps'', ''cfg_scale''].
            case lookup p k of None \<Rightarrow> False | Some v \<Rightarrow> is_number v"
    and "\<forall>k \<in> set [''denoising_strength'', ''control_strength'', ''facefixer_strength''].
            case lookup p k of None \<Rightarrow> True | Some v \<Rightarrow> v = JNull \<or> is_number v"
    and "\<forall>k \<in> set [''clip_skip'', ''lora_count'', ''ti_count'', ''extra_source_images_count'',
                     ''extra_source_images_combined_size'', ''source_image_size'',
                     ''source_mask_size''].
            case lookup p k of None \<Rightarrow> True | Some v \<Rightarrow> floatable X v"
  shows "\<forall>m \<in> set (data_row X p). numeric_result m"
proof -
  have req: "numeric_result (bindE (subscript p k) (\<lambda>v. py_truediv v c))"
    if "k \<in> set [''height'', ''width'', ''ddim_steps'', ''cfg_scale'']" "c \<noteq> 0"
      "\<bar>c\<bar> < float_overflow" for k c
  proof -
    from assms(2) that(1) obtain v where "lookup p k = Some v" "is_number v"
      by (fastforce split: option.splits)
    then show ?thesis using that(2,3) by (rule required_numeric)
  qed
  have small: "1024 < float_overflow" "100 < float_overflow" "30 < float_overflow"
    unfolding float_overflow_def by simp_all
  have str: "numeric_result (get_strength p k)"
    if "k \<in> set [''denoising_strength'', ''control_strength'', ''facefixer_strength'']" for k
    using assms(3) that by (intro strength_numeric[OF assms(1)]) blast
  have flt: "numeric_result (get_float X p k d)"
    if "k \<in> set [''clip_skip'', ''lora_count'', ''ti_count'', ''extra_source_images_count'',
                     ''extra_source_images_combined_size'', ''source_image_size'',
                     ''source_mask_size'']" for k d
    using assms(4) that by (intro float_numeric[OF assms(1)]) blast
  show ?thesis
    unfolding data_row_def
    by (simp add: req small str flt flag_numeric[OF assms(1)] order_numeric[OF assms(1)])
qed


lemma is_dict_lookup:
  "is_dict (case lookup x k of None \<Rightarrow> JNull | Some v \<Rightarrow> v) \<Longrightarrow>
   subscript x k = Inr (case lookup x k of None \<Rightarrow> JNull | Some v \<Rightarrow> v)"
  by (cases x) (auto split: option.splits)


lemma well_formedD:
  assumes "well_formed X r"
  shows "is_dict (job_info r)" "is_dict (job_payload r)"
    "\<forall>k \<in> set [''height'', ''width'', ''ddim_steps'', ''cfg_scale''].
            case lookup (job_payload r) k of None \<Rightarrow> False | Some v \<Rightarrow> is_number v"
    "\<forall>k \<in> set [''denoising_strength'', ''control_strength'', ''facefixer_strength''].
            case lookup (job_payload r) k of None \<Rightarrow> True | Some v \<Rightarrow> v = JNull \<or> is_number v"
    "\<forall>k \<in> set [''clip_skip'', ''lora_count'', ''ti_count'', ''extra_source_images_count'',
                     ''extra_source_images_combined_size'', ''source_image_size'',
                     ''source_mask_size''].
            case lookup (job_payload r) k of None \<Rightarrow> True | Some v \<Rightarrow> floatable X v"
    "lookup (job_info r) ''model_baseline'' \<noteq> None"
    "case lookup (job_payload r) ''scheduler'' of None \<Rightarrow> False
       | Some v \<Rightarrow> py_in v KNOWN_SCHEDULERS"
    "case lookup (job_payload r) ''sampler_name'' of None \<Rightarrow> False
          | Some v \<Rightarrow> py_in v (KNOWN_SAMPLERS X) \<or> ''k_euler'' \<in> set (KNOWN_SAMPLERS X)"
    "case lookup (job_payload r) ''control_type'' of None \<Rightarrow> True
          | Some v \<Rightarrow> v = JNull \<or> py_in v (KNOWN_CONTROL_TYPES X)"
    "case lookup (job_info r) ''source_processing'' of None \<Rightarrow> True
          | Some v \<Rightarrow> py_in v (KNOWN_SOURCE_PROCESSING X)"
    "case lookup (job_payload r) ''post_processing'' of None \<Rightarrow> True
          | Some (JList xs) \<Rightarrow> \<forall>x \<in> set xs. py_in x KNOWN_POST_PROCESSORS
          | Some _ \<Rightarrow> False"
  using assms unfolding well_formed_def Let_def by simp_all

lemma well_formed_encodes:
  assumes "well_formed X r"
  shows "\<exists>row. payload_to_tensor X r = Inr [row]"
proof -
  define info where "info = job_info r"
  define p where "p = job_payload r"
  note wf = well_formedD[OF assms, folded info_def p_def]
  have di: "is_dict info" and dp: "is_dict p" by (rule wf(1), rule wf(2))
  have s1: "subscript r ''sdk_api_job_info'' = Inr info"
    using di unfolding info_def job_info_def by (rule is_dict_lookup)
  have s2: "subscript info ''payload'' = Inr p"
    using dp unfolding p_def job_payload_def info_def[symmetric] by (rule is_dict_lookup)
  have "\<forall>m \<in> set (data_row X p). numeric_result m"
    by (rule data_row_numeric[OF dp wf(3) wf(4) wf(5)])
  from numeric_results[OF this] obtain row nums where
    row: "data_row X p = map Inr row" and nums: "map torch_scalar row = map Inr nums"
    by blast
  have s3: "sequenceE (data_row X p) = Inr row" using row by (simp add: sequenceE_Inr_iff)
  have s4: "torch_tensor_float [row] = Inr [nums]"
    using nums by (simp add: torch_tensor_float_single)
  from wf(6) obtain mb where mb: "lookup info ''model_baseline'' = Some mb" by blast
  then have s5: "subscript info ''model_baseline'' = Inr mb" by (simp add: subscript_lookup)
  from wf(7) obtain sch where sch: "lookup p ''scheduler'' = Some sch"
    and schin: "py_in sch KNOWN_SCHEDULERS" by (auto split: option.splits)
  then have s6: "subscript p ''scheduler'' = Inr sch" by (simp add: subscript_lookup)
  from wf(8) obtain sn where sn: "lookup p ''sampler_name'' = Some sn"
    and snin: "py_in sn (KNOWN_SAMPLERS X) \<or> ''k_euler'' \<in> set (KNOWN_SAMPLERS X)"
    by (auto split: option.splits)
  then have s7: "subscript p ''sampler_name'' = Inr sn" by (simp add: subscript_lookup)
  define ct where "ct = (case lookup p ''control_type'' of None \<Rightarrow> JStr ''None'' | Some v \<Rightarrow> v)"
  have s8: "py_get p ''control_type'' (JStr ''None'') = Inr ct"
    unfolding ct_def by (rule py_get_dict[OF dp])
  have none: "''None'' \<in> set (KNOWN_CONTROL_TYPES X)" by (simp add: KNOWN_CONTROL_TYPES_def)
  have ctin: "py_in (if ct \<noteq> JNull then ct else JStr ''None'') (KNOWN_CONTROL_TYPES X)"
    using wf(9) none unfolding ct_def by (auto split: option.splits)
  define sp where
    "sp = (case lookup info ''source_processing'' of None \<Rightarrow> JStr ''txt2img'' | Some v \<Rightarrow> v)"
  have s9: "py_get info ''source_processing'' (JStr ''txt2img'') = Inr sp"
    unfolding sp_def by (rule py_get_dict[OF di])
  have "''txt2img'' \<in> set (KNOWN_SOURCE_PROCESSING X)"
    by (simp add: KNOWN_SOURCE_PROCESSING_def)
  then have spin: "py_in sp (KNOWN_SOURCE_PROCESSING X)"
    using wf(10) unfolding sp_def by (auto split: option.splits)
  obtain pp where s10: "bindE (py_get p ''post_processing'' (JList [])) py_slice_all = Inr pp"
    and ppin: "\<forall>x \<in> set pp. py_in x KNOWN_POST_PROCESSORS"
  proof (cases "lookup p ''post_processing''")
    case None
    then have "bindE (py_get p ''post_processing'' (JList [])) py_slice_all = Inr []"
      by (simp add: py_get_dict[OF dp] bindE_def)
    then show ?thesis using that by simp
  next
    case (Some v)
    with wf(11) obtain xs where v: "v = JList xs" and xs: "\<forall>x \<in> set xs. py_in x KNOWN_POST_PROCESSORS"
      by (cases v) auto
    from Some v have "bindE (py_get p ''post_processing'' (JList [])) py_slice_all = Inr xs"
      by (simp add: py_get_dict[OF dp] bindE_def)
    then show ?thesis using that xs by simp
  qed
  have "''stable_diffusion_xl'' \<in> set KNOWN_MODEL_BASELINES"
    by (simp add: KNOWN_MODEL_BASELINES_def)
  then have "py_in (if py_in mb KNOWN_MODEL_BASELINES then mb else JStr ''stable_diffusion_xl'')
               KNOWN_MODEL_BASELINES" by simp
  from one_hot_at_py_in[OF this] obtain b1 where b1:
    "one_hot_encode [if py_in mb KNOWN_MODEL_BASELINES then mb else JStr ''stable_diffusion_xl'']
       KNOWN_MODEL_BASELINES = Inr [b1]" by blast
  have "py_in (if py_in sn (KNOWN_SAMPLERS X) then sn else JStr ''k_euler'') (KNOWN_SAMPLERS X)"
    using snin by auto
  from one_hot_at_py_in[OF this] obtain b2 where b2:
    "one_hot_encode [if py_in sn (KNOWN_SAMPLERS X) then sn else JStr ''k_euler'']
       (KNOWN_SAMPLERS X) = Inr [b2]" by blast
  from one_hot_at_py_in[OF schin] obtain b3 where b3:
    "one_hot_encode [sch] KNOWN_SCHEDULERS = Inr [b3]" by blast
  from one_hot_at_py_in[OF ctin] obtain b4 where b4:
    "one_hot_encode [if ct \<noteq> JNull then ct else JStr ''None''] (KNOWN_CONTROL_TYPES X) = Inr [b4]"
    by blast
  from one_hot_at_py_in[OF spin] obtain b5 where b5:
    "one_hot_encode [sp] (KNOWN_SOURCE_PROCESSING X) = Inr [b5]" by blast
  from one_hot_encode_combined_total[OF ppin] obtain b6 where b6:
    "one_hot_encode_combined pp KNOWN_POST_PROCESSORS = Inr [b6]" by blast
  have "payload_to_tensor X r = Inr [nums @ b1 @ b2 @ b3 @ b4 @ b5 @ b6]"
    unfolding payload_to_tensor_def Let_def
    by (simp only: s1 s2 s3 s4 s5 s6 s7 s8 s9 s10[unfolded bindE_def] b1 b2 b3 b4 b5 b6
        bindE_def sum.case
        torch_cat_dim1_rows)
  then show ?thesis by blast
qed

lemma data_row_nth:
  "data_row X p ! 4 = get_strength p ''denoising_strength''"
  "data_row X p ! 5 = get_float X p ''clip_skip'' 1"
  "data_row X p ! 6 = get_strength p ''control_strength''"
  "data_row X p ! 7 = get_strength p ''facefixer_strength''"
  "data_row X p ! 8 = get_float X p ''lora_count'' 0"
  "data_row X p ! 9 = get_float X p ''ti_count'' 0"
  "data_row X p ! 10 = get_float X p ''extra_source_images_count'' 0"
  "data_row X p ! 11 = get_float X p ''extra_source_images_combined_size'' 0"
  "data_row X p ! 12 = get_float X p ''source_image_size'' 0"
  "data_row X p ! 13 = get_float X p ''source_mask_size'' 0"
  "data_row X p ! 14 = get_flag p ''hires_fix''"
  "data_row X p ! 15 = get_flag p ''hires_fix_denoising_strength''"
  "data_row X p ! 16 = get_flag p ''image_is_control''"
  "data_row X p ! 17 = get_flag p ''return_control_map''"
  "data_row X p ! 18 = get_flag p ''transparent''"
  "data_row X p ! 19 = get_flag p ''source_image''"
  "data_row X p ! 20 = get_flag p ''source_mask''"
  "data_row X p ! 21 = get_flag p ''tiling''"
  "data_row X p ! 22 = bindE (py_get p ''post_processing_order'' (JStr ''facefixers_first''))
        (\<lambda>v. Inr (JFloat (if v = JStr ''facefixers_first'' then 1 else 0)))"
  unfolding data_row_def by (simp_all only: nth_Cons_numeral nth_Cons_0 numeral_eq_Suc pred_numeral_simps nth_Cons_Suc arith_simps)

lemma get_strength_absent:
  "is_dict p \<Longrightarrow> lookup p k = None \<or> lookup p k = Some JNull \<Longrightarrow>
   get_strength p k = Inr (JFloat 1)"
  by (auto simp: get_strength_def py_get_dict bindE_def)

lemma get_float_absent:
  "is_dict p \<Longrightarrow> lookup p k = None \<Longrightarrow> get_float X p k d = Inr (JFloat d)"
  by (simp add: get_float_def py_get_dict bindE_def)

lemma get_flag_absent:
  "is_dict p \<Longrightarrow> lookup p k = None \<Longrightarrow> get_flag p k = Inr (JFloat 1)"
  by (simp add: get_flag_dict)

lemma order_absent:
  "is_dict p \<Longrightarrow> lookup p k = None \<Longrightarrow>
   bindE (py_get p k (JStr ''facefixers_first''))
        (\<lambda>v. Inr (JFloat (if v = JStr ''facefixers_first'' then 1 else 0))) = Inr (JFloat 1)"
  by (simp add: py_get_dict bindE_def)

lemma default_entry:
  assumes "is_dict p" "(i, k, d) \<in> set optional_defaults" "lookup p k = None"
  shows "i < 23 \<and> data_row X p ! i = Inr (JFloat d)"
proof -
  have "(i, k, d) \<in> {(4, ''denoising_strength'', 1), (5, ''clip_skip'', 1),
      (6, ''control_strength'', 1), (7, ''facefixer_strength'', 1), (8, ''lora_count'', 0),
      (9, ''ti_count'', 0), (10, ''extra_source_images_count'', 0),
      (11, ''extra_source_images_combined_size'', 0), (12, ''source_image_size'', 0),
      (13, ''source_mask_size'', 0), (14, ''hires_fix'', 1),
      (15, ''hires_fix_denoising_strength'', 1), (16, ''image_is_control'', 1),
      (17, ''return_control_map'', 1), (18, ''transparent'', 1), (19, ''source_image'', 1),
      (20, ''source_mask'', 1), (21, ''tiling'', 1), (22, ''post_processing_order'', 1)}"
    using assms(2) unfolding optional_defaults_def flag_fields_def by simp
  then show ?thesis
    using assms(1,3)
    by (elim insertE emptyE; clarify;
        simp only: data_row_nth get_strength_absent get_float_absent get_flag_absent
          order_absent simp_thms; simp)
qed

lemma null_strength_entry:
  assumes "is_dict p" "(i, k) \<in> set strength_fields" "lookup p k = Some JNull"
  shows "i < 23 \<and> data_row X p ! i = Inr (JFloat 1)"
proof -
  have "(i, k) \<in> {(4, ''denoising_strength''), (6, ''control_strength''),
      (7, ''facefixer_strength'')}"
    using assms(2) unfolding strength_fields_def by simp
  then show ?thesis
    using assms(1,3)
    by (elim insertE emptyE; clarify;
        simp only: data_row_nth get_strength_absent simp_thms; simp)
qed

lemma encoder_numeric:
  assumes "payload_to_tensor X r = Inr [row]" "i < 23"
    "data_row X (job_payload r) ! i = Inr (JFloat x)"
  shows "row ! i = x"
proof -
  from encoder_shape[OF assms(1)] obtain rw nums b1 b2 b3 b4 b5 b6 where
    rw: "data_row X (job_payload r) = map Inr rw"
    and nums: "map torch_scalar rw = map Inr nums"
    and row: "[row] = [nums @ b1 @ b2 @ b3 @ b4 @ b5 @ b6]"
    by (elim exE conjE) (rule that)
  from numeric_entry[OF rw nums assms(2,3)] have "length nums = 23" "nums ! i = x" by simp_all
  with row assms(2) show ?thesis by (simp add: nth_append)
qed

lemma encoder_blocks:
  assumes "payload_to_tensor X r = Inr [row]"
  shows "one_hot_at KNOWN_MODEL_BASELINES
       (case lookup (job_info r) ''model_baseline'' of None \<Rightarrow> JNull
        | Some mb \<Rightarrow> if py_in mb KNOWN_MODEL_BASELINES then mb else JStr ''stable_diffusion_xl'')
       = Some (model_baseline_block X row)"
    and "one_hot_at (KNOWN_SAMPLERS X)
       (case lookup (job_payload r) ''sampler_name'' of None \<Rightarrow> JNull
        | Some sn \<Rightarrow> if py_in sn (KNOWN_SAMPLERS X) then sn else JStr ''k_euler'')
       = Some (sampler_block X row)"
    and "one_hot_at KNOWN_SCHEDULERS
       (case lookup (job_payload r) ''scheduler'' of None \<Rightarrow> JNull | Some v \<Rightarrow> v)
       = Some (scheduler_block X row)"
    and "one_hot_at (KNOWN_CONTROL_TYPES X)
       (case lookup (job_payload r) ''control_type'' of None \<Rightarrow> JStr ''None''
        | Some v \<Rightarrow> if v \<noteq> JNull then v else JStr ''None'')
       = Some (control_type_block X row)"
    and "one_hot_at (KNOWN_SOURCE_PROCESSING X)
       (case lookup (job_info r) ''source_processing'' of None \<Rightarrow> JStr ''txt2img''
        | Some v \<Rightarrow> v) = Some (source_processing_block X row)"
    and "\<exists>pp. bindE (py_get (job_payload r) ''post_processing'' (JList [])) py_slice_all = Inr pp
           \<and> one_hot_encode_combined pp KNOWN_POST_PROCESSORS = Inr [post_processor_block X row]"
proof -
  from encoder_shape[OF assms] obtain rw nums b1 b2 b3 b4 b5 b6 where H:
    "is_dict (job_info r) \<and> is_dict (job_payload r) \<and>
     data_row X (job_payload r) = map Inr rw \<and> map torch_scalar rw = map Inr nums \<and>
     length nums = 23 \<and> length b1 = length KNOWN_MODEL_BASELINES \<and>
     length b2 = length (KNOWN_SAMPLERS X) \<and> length b3 = length KNOWN_SCHEDULERS \<and>
     length b4 = length (KNOWN_CONTROL_TYPES X) \<and>
     length b5 = length (KNOWN_SOURCE_PROCESSING X) \<and>
     length b6 = length KNOWN_POST_PROCESSORS \<and>
     one_hot_at KNOWN_MODEL_BASELINES
       (case lookup (job_info r) ''model_baseline'' of None \<Rightarrow> JNull
        | Some mb \<Rightarrow> if py_in mb KNOWN_MODEL_BASELINES then mb else JStr ''stable_diffusion_xl'')
       = Some b1 \<and>
     one_hot_at (KNOWN_SAMPLERS X)
       (case lookup (job_payload r) ''sampler_name'' of None \<Rightarrow> JNull
        | Some sn \<Rightarrow> if py_in sn (KNOWN_SAMPLERS X) then sn else JStr ''k_euler'') = Some b2 \<and>
     one_hot_at KNOWN_SCHEDULERS
       (case lookup (job_payload r) ''scheduler'' of None \<Rightarrow> JNull | Some v \<Rightarrow> v) = Some b3 \<and>
     one_hot_at (KNOWN_CONTROL_TYPES X)
       (case lookup (job_payload r) ''control_type'' of None \<Rightarrow> JStr ''None''
        | Some v \<Rightarrow> if v \<noteq> JNull then v else JStr ''None'') = Some b4 \<and>
     one_hot_at (KNOWN_SOURCE_PROCESSING X)
       (case lookup (job_info r) ''source_processing'' of None \<Rightarrow> JStr ''txt2img''
        | Some v \<Rightarrow> v) = Some b5 \<and>
     (\<exists>pp. bindE (py_get (job_payload r) ''post_processing'' (JList [])) py_slice_all = Inr pp \<and>
        one_hot_encode_combined pp KNOWN_POST_PROCESSORS = Inr [b6]) \<and>
     [row] = [nums @ b1 @ b2 @ b3 @ b4 @ b5 @ b6]"
    by (elim exE) (rule that)
  have ln: "length nums = 23" "length b1 = length KNOWN_MODEL_BASELINES"
      "length b2 = length (KNOWN_SAMPLERS X)" "length b3 = length KNOWN_SCHEDULERS"
      "length b4 = length (KNOWN_CONTROL_TYPES X)"
      "length b5 = length (KNOWN_SOURCE_PROCESSING X)"
    using H by simp_all
  have b1: "one_hot_at KNOWN_MODEL_BASELINES
       (case lookup (job_info r) ''model_baseline'' of None \<Rightarrow> JNull
        | Some mb \<Rightarrow> if py_in mb KNOWN_MODEL_BASELINES then mb else JStr ''stable_diffusion_xl'')
       = Some b1" using H by (elim conjE)
  have b2: "one_hot_at (KNOWN_SAMPLERS X)
       (case lookup (job_payload r) ''sampler_name'' of None \<Rightarrow> JNull
        | Some sn \<Rightarrow> if py_in sn (KNOWN_SAMPLERS X) then sn else JStr ''k_euler'') = Some b2"
    using H by (elim conjE)
  have b3: "one_hot_at KNOWN_SCHEDULERS
       (case lookup (job_payload r) ''scheduler'' of None \<Rightarrow> JNull | Some v \<Rightarrow> v) = Some b3"
    using H by (elim conjE)
  have b4: "one_hot_at (KNOWN_CONTROL_TYPES X)
       (case lookup (job_payload r) ''control_type'' of None \<Rightarrow> JStr ''None''
        | Some v \<Rightarrow> if v \<noteq> JNull then v else JStr ''None'') = Some b4"
    using H by (elim conjE)
  have b5: "one_hot_at (KNOWN_SOURCE_PROCESSING X)
       (case lookup (job_info r) ''source_processing'' of None \<Rightarrow> JStr ''txt2img''
        | Some v \<Rightarrow> v) = Some b5"
    using H by (elim conjE)
  have b6: "\<exists>pp. bindE (py_get (job_payload r) ''post_processing'' (JList [])) py_slice_all = Inr pp \<and>
        one_hot_encode_combined pp KNOWN_POST_PROCESSORS = Inr [b6]"
    using H by (elim conjE)
  have row: "[row] = [nums @ b1 @ b2 @ b3 @ b4 @ b5 @ b6]"
    using H by (elim conjE)
  have r: "row = nums @ b1 @ b2 @ b3 @ b4 @ b5 @ b6" using row by simp
  have e1: "model_baseline_block X row = b1"
    unfolding r model_baseline_block_def using ln by simp
  have e2: "sampler_block X row = b2"
    unfolding r sampler_block_def using ln by simp
  have e3: "scheduler_block X row = b3"
    unfolding r scheduler_block_def using ln by simp
  have e4: "control_type_block X row = b4"
    unfolding r control_type_block_def using ln by simp
  have e5: "source_processing_block X row = b5"
    unfolding r source_processing_block_def using ln by simp
  have e6: "post_processor_block X row = b6"
    unfolding r post_processor_block_def using ln by simp
  show "one_hot_at KNOWN_MODEL_BASELINES
       (case lookup (job_info r) ''model_baseline'' of None \<Rightarrow> JNull
        | Some mb \<Rightarrow> if py_in mb KNOWN_MODEL_BASELINES then mb else JStr ''stable_diffusion_xl'')
       = Some (model_baseline_block X row)" unfolding e1 by (rule b1)
  show "one_hot_at (KNOWN_SAMPLERS X)
       (case lookup (job_payload r) ''sampler_name'' of None \<Rightarrow> JNull
        | Some sn \<Rightarrow> if py_in sn (KNOWN_SAMPLERS X) then sn else JStr ''k_euler'')
       = Some (sampler_block X row)" unfolding e2 by (rule b2)
  show "one_hot_at KNOWN_SCHEDULERS
       (case lookup (job_payload r) ''scheduler'' of None \<Rightarrow> JNull | Some v \<Rightarrow> v)
       = Some (scheduler_block X row)" unfolding e3 by (rule b3)
  show "one_hot_at (KNOWN_CONTROL_TYPES X)
       (case lookup (job_payload r) ''control_type'' of None \<Rightarrow> JStr ''None''
        | Some v \<Rightarrow> if v \<noteq> JNull then v else JStr ''None'')
       = Some (control_type_block X row)" unfolding e4 by (rule b4)
  show "one_hot_at (KNOWN_SOURCE_PROCESSING X)
       (case lookup (job_info r) ''source_processing'' of None \<Rightarrow> JStr ''txt2img''
        | Some v \<Rightarrow> v) = Some (source_processing_block X row)" unfolding e5 by (rule b5)
  show "\<exists>pp. bindE (py_get (job_payload r) ''post_processing'' (JList [])) py_slice_all = Inr pp
           \<and> one_hot_encode_combined pp KNOWN_POST_PROCESSORS = Inr [post_processor_block X row]"
    unfolding e6 by (rule b6)
qed

text \<open>
  Claim C1, as the code has it. The encoder does not accept every record: it reads
  \<^verbatim>\<open>sdk_api_job_info\<close>, \<^verbatim>\<open>payload\<close>, height, width, ddim_steps, cfg_scale, model_baseline,
  scheduler and sampler_name by subscript, and its arithmetic refuses some values, an int
  too large for a float among them. For every well-formed record (its numbers are floats,
  bools or ints below \<open>2 ^ 1024 - 2 ^ 970\<close> in magnitude) it returns one row of the fixed
  length, and an optional field that is absent takes its default: 1 for the three
  strengths (also when they are null), clip_skip and the flags, 0 for the counts and
  sizes, "None" for the control type, "txt2img" for the source-processing mode and no
  post-processor.
\<close>

theorem encoder_accepts_well_formed_records:
  assumes "well_formed X r"
  shows "\<exists>row. payload_to_tensor X r = Inr [row] \<and> length row = feature_width X
     \<and> (\<forall>(i, k, d) \<in> set optional_defaults.
           lookup (job_payload r) k = None \<longrightarrow> row ! i = d)
     \<and> (\<forall>(i, k) \<in> set strength_fields.
           lookup (job_payload r) k = Some JNull \<longrightarrow> row ! i = 1)
     \<and> (lookup (job_payload r) ''control_type'' = None \<longrightarrow>
           one_hot_at (KNOWN_CONTROL_TYPES X) (JStr ''None'') = Some (control_type_block X row))
     \<and> (lookup (job_info r) ''source_processing'' = None \<longrightarrow>
           one_hot_at (KNOWN_SOURCE_PROCESSING X) (JStr ''txt2img'')
             = Some (source_processing_block X row))
     \<and> (lookup (job_payload r) ''post_processing'' = None \<longrightarrow>
           post_processor_block X row = replicate (length KNOWN_POST_PROCESSORS) 0)"
proof -
  from well_formed_encodes[OF assms] obtain row where enc: "payload_to_tensor X r = Inr [row]"
    by blast
  have dp: "is_dict (job_payload r)" using assms by (rule well_formedD(2))
  have len: "length row = feature_width X" using encoder_length[OF enc] by simp
  have dflt: "\<forall>(i, k, d) \<in> set optional_defaults.
           lookup (job_payload r) k = None \<longrightarrow> row ! i = d"
  proof (clarify)
    fix i k d assume m: "(i, k, d) \<in> set optional_defaults"
      and n: "lookup (job_payload r) k = None"
    from default_entry[OF dp m n, of X] show "row ! i = d"
      using encoder_numeric[OF enc] by blast
  qed
  have nul: "\<forall>(i, k) \<in> set strength_fields.
           lookup (job_payload r) k = Some JNull \<longrightarrow> row ! i = 1"
  proof (clarify)
    fix i k assume m: "(i, k) \<in> set strength_fields"
      and n: "lookup (job_payload r) k = Some JNull"
    from null_strength_entry[OF dp m n, of X] show "row ! i = 1"
      using encoder_numeric[OF enc] by blast
  qed
  have ct: "one_hot_at (KNOWN_CONTROL_TYPES X) (JStr ''None'') = Some (control_type_block X row)"
    if "lookup (job_payload r) ''control_type'' = None"
    using encoder_blocks(4)[OF enc] that by simp
  have sp: "one_hot_at (KNOWN_SOURCE_PROCESSING X) (JStr ''txt2img'')
             = Some (source_processing_block X row)"
    if "lookup (job_info r) ''source_processing'' = None"
    using encoder_blocks(5)[OF enc] that by simp
  have pp: "post_processor_block X row = replicate (length KNOWN_POST_PROCESSORS) 0"
    if "lookup (job_payload r) ''post_processing'' = None"
  proof -
    from encoder_blocks(6)[OF enc] that
    have "one_hot_encode_combined [] KNOWN_POST_PROCESSORS = Inr [post_processor_block X row]"
      by (simp add: py_get_dict[OF dp] bindE_def)
    then show ?thesis
      by (simp add: one_hot_encode_combined_def bindE_def torch_zeros_def
          torch_sum_dim0_keepdim_def)
  qed
  show ?thesis
    by (intro exI[of _ row] conjI impI; (fact enc len dflt nul | erule ct sp pp))
qed

theorem encoder_accepts_well_formed_records_witness:
  "well_formed sample_externals minimal_record
   \<and> (\<exists>row. payload_to_tensor sample_externals minimal_record = Inr [row]
         \<and> length row = 48
         \<and> (\<forall>(i, k, d) \<in> set optional_defaults.
               lookup (job_payload minimal_record) k = None \<and> row ! i = d))"
proof -
  have wf: "well_formed sample_externals minimal_record" by code_simp
  have absent: "\<forall>(i, k, d) \<in> set optional_defaults. lookup (job_payload minimal_record) k = None"
    by code_simp
  have w: "feature_width sample_externals = 48" by code_simp
  from encoder_accepts_well_formed_records[OF wf] obtain row where
    enc: "payload_to_tensor sample_externals minimal_record = Inr [row]"
    and len: "length row = feature_width sample_externals"
    and dflt: "\<forall>(i, k, d) \<in> set optional_defaults.
           lookup (job_payload minimal_record) k = None \<longrightarrow> row ! i = d"
    by (elim exE conjE) (rule that)
  from dflt absent have "\<forall>(i, k, d) \<in> set optional_defaults.
      lookup (job_payload minimal_record) k = None \<and> row ! i = d" by fastforce
  with wf enc len w show ?thesis by auto
qed


text \<open>The empty record raises KeyError, whatever the imported tables are; a null clip_skip
  raises TypeError and a height of \<open>10 ^ 400\<close> raises OverflowError.\<close>

theorem encoder_raises_on_missing_or_malformed_fields:
  "(\<forall>X. payload_to_tensor X (JObj []) = Inl KeyError)
   \<and> payload_to_tensor sample_externals null_clip_skip_record = Inl TypeError
   \<and> payload_to_tensor sample_externals huge_height_record = Inl OverflowError"
proof (intro conjI allI)
  fix X show "payload_to_tensor X (JObj []) = Inl KeyError"
    by (simp add: payload_to_tensor_def bindE_def)
  show "payload_to_tensor sample_externals null_clip_skip_record = Inl TypeError"
    by code_simp
  show "payload_to_tensor sample_externals huge_height_record = Inl OverflowError"
    by code_simp
qed


section \<open>Values outside a vocabulary\<close>

text \<open>
  Claim C2, as the code has it. A well-formed record may carry any model baseline and any
  sampler name: a model baseline outside the vocabulary is encoded at the position of
  stable_diffusion_xl, a sampler outside the vocabulary at the position of k_euler, and a
  null control type at the position of "None".
\<close>

theorem unknown_baseline_and_sampler_fall_back:
  assumes "well_formed X r"
  shows "\<exists>row. payload_to_tensor X r = Inr [row]
     \<and> (\<forall>v. lookup (job_info r) ''model_baseline'' = Some v \<longrightarrow>
              \<not> py_in v KNOWN_MODEL_BASELINES \<longrightarrow>
              one_hot_at KNOWN_MODEL_BASELINES (JStr ''stable_diffusion_xl'')
                = Some (model_baseline_block X row)
              \<and> model_baseline_block X row = [0, 0, 0, 0, 1])
     \<and> (\<forall>v. lookup (job_payload r) ''sampler_name'' = Some v \<longrightarrow>
              \<not> py_in v (KNOWN_SAMPLERS X) \<longrightarrow>
              one_hot_at (KNOWN_SAMPLERS X) (JStr ''k_euler'') = Some (sampler_block X row))
     \<and> (lookup (job_payload r) ''control_type'' = Some JNull \<longrightarrow>
           one_hot_at (KNOWN_CONTROL_TYPES X) (JStr ''None'') = Some (control_type_block X row))"
proof -
  from well_formed_encodes[OF assms] obtain row where enc: "payload_to_tensor X r = Inr [row]"
    by blast
  have xl: "one_hot_at KNOWN_MODEL_BASELINES (JStr ''stable_diffusion_xl'') = Some [0, 0, 0, 0, 1]"
    by code_simp
  have mb: "one_hot_at KNOWN_MODEL_BASELINES (JStr ''stable_diffusion_xl'')
                = Some (model_baseline_block X row)
              \<and> model_baseline_block X row = [0, 0, 0, 0, 1]"
    if "lookup (job_info r) ''model_baseline'' = Some v" "\<not> py_in v KNOWN_MODEL_BASELINES" for v
    using encoder_blocks(1)[OF enc] that xl by simp
  have sn: "one_hot_at (KNOWN_SAMPLERS X) (JStr ''k_euler'') = Some (sampler_block X row)"
    if "lookup (job_payload r) ''sampler_name'' = Some v" "\<not> py_in v (KNOWN_SAMPLERS X)" for v
    using encoder_blocks(2)[OF enc] that by simp
  have ct: "one_hot_at (KNOWN_CONTROL_TYPES X) (JStr ''None'') = Some (control_type_block X row)"
    if "lookup (job_payload r) ''control_type'' = Some JNull"
    using encoder_blocks(4)[OF enc] that by simp
  from enc mb sn ct show ?thesis by blast
qed

theorem unknown_baseline_and_sampler_fall_back_witness:
  "well_formed sample_externals oov_record
   \<and> lookup (job_info oov_record) ''model_baseline'' = Some (JStr ''stable_diffusion_3'')
   \<and> \<not> py_in (JStr ''stable_diffusion_3'') KNOWN_MODEL_BASELINES
   \<and> lookup (job_payload oov_record) ''sampler_name'' = Some (JStr ''dpmpp_3m'')
   \<and> \<not> py_in (JStr ''dpmpp_3m'') (KNOWN_SAMPLERS sample_externals)
   \<and> lookup (job_payload oov_record) ''control_type'' = Some JNull
   \<and> (\<exists>row. payload_to_tensor sample_externals oov_record = Inr [row]
         \<and> model_baseline_block sample_externals row = [0, 0, 0, 0, 1]
         \<and> sampler_block sample_externals row = [0, 1, 0]
         \<and> control_type_block sample_externals row = [1, 0, 0])"
proof -
  have wf: "well_formed sample_externals oov_record" by code_simp
  have f1: "lookup (job_info oov_record) ''model_baseline'' = Some (JStr ''stable_diffusion_3'')"
    by code_simp
  have f2: "\<not> py_in (JStr ''stable_diffusion_3'') KNOWN_MODEL_BASELINES" by code_simp
  have f3: "lookup (job_payload oov_record) ''sampler_name'' = Some (JStr ''dpmpp_3m'')"
    by code_simp
  have f4: "\<not> py_in (JStr ''dpmpp_3m'') (KNOWN_SAMPLERS sample_externals)" by code_simp
  have f5: "lookup (job_payload oov_record) ''control_type'' = Some JNull" by code_simp
  have e1: "one_hot_at (KNOWN_SAMPLERS sample_externals) (JStr ''k_euler'') = Some [0, 1, 0]"
    by code_simp
  have e2: "one_hot_at (KNOWN_CONTROL_TYPES sample_externals) (JStr ''None'') = Some [1, 0, 0]"
    by code_simp
  from unknown_baseline_and_sampler_fall_back[OF wf] f1 f2 f3 f4 f5 obtain row where
    enc: "payload_to_tensor sample_externals oov_record = Inr [row]"
    and b1: "model_baseline_block sample_externals row = [0, 0, 0, 0, 1]"
    and b2: "one_hot_at (KNOWN_SAMPLERS sample_externals) (JStr ''k_euler'')
               = Some (sampler_block sample_externals row)"
    and b4: "one_hot_at (KNOWN_CONTROL_TYPES sample_externals) (JStr ''None'')
               = Some (control_type_block sample_externals row)"
    by blast
  from b2 e1 have "sampler_block sample_externals row = [0, 1, 0]" by simp
  moreover from b4 e2 have "control_type_block sample_externals row = [1, 0, 0]" by simp
  ultimately show ?thesis using wf f1 f2 f3 f4 f5 enc b1 by blast
qed


text \<open>An unknown scheduler, control type or source-processing mode has no fallback:
  \<^verbatim>\<open>unique_strings.index\<close> raises ValueError. The schedulers are listed in train.py, so
  the record with the scheduler "exponential" is refused whatever the imported tables
  are.\<close>

theorem unknown_scheduler_control_type_source_processing_raise:
  "payload_to_tensor sample_externals unknown_scheduler_record = Inl ValueError
   \<and> (\<forall>X. \<exists>e. payload_to_tensor X unknown_scheduler_record = Inl e)
   \<and> payload_to_tensor sample_externals unknown_control_type_record = Inl ValueError
   \<and> payload_to_tensor sample_externals unknown_source_processing_record = Inl ValueError"
proof (intro conjI allI)
  show "payload_to_tensor sample_externals unknown_scheduler_record = Inl ValueError"
    by code_simp
  show "payload_to_tensor sample_externals unknown_control_type_record = Inl ValueError"
    by code_simp
  show "payload_to_tensor sample_externals unknown_source_processing_record = Inl ValueError"
    by code_simp
  fix X
  show "\<exists>e. payload_to_tensor X unknown_scheduler_record = Inl e"
  proof (cases "payload_to_tensor X unknown_scheduler_record")
    case (Inl e)
    then show ?thesis by blast
  next
    case (Inr t)
    from encoder_length[OF Inr] obtain row where
      "payload_to_tensor X unknown_scheduler_record = Inr [row]" using Inr by blast
    from encoder_blocks(3)[OF this]
    have "one_hot_at KNOWN_SCHEDULERS
       (case lookup (job_payload unknown_scheduler_record) ''scheduler'' of None \<Rightarrow> JNull
        | Some v \<Rightarrow> v) \<noteq> None" by simp
    moreover have "lookup (job_payload unknown_scheduler_record) ''scheduler''
        = Some (JStr ''exponential'')" by code_simp
    moreover have "one_hot_at KNOWN_SCHEDULERS (JStr ''exponential'') = None" by code_simp
    ultimately show ?thesis by simp
  qed
qed

section \<open>Loading a data file\<close>

lemma init_loop_kept:
  assumes "\<forall>r \<in> set ps. lookup r ''time_to_generate'' \<noteq> None"
    and "\<forall>r \<in> set (kept_records ps). \<exists>t. payload_to_tensor X r = Inr t"
  shows "\<exists>rows. init_loop X ps (ds, ls) = Inr (ds @ rows, ls @ map label_of (kept_records ps))
           \<and> map (\<lambda>row. Inr [row]) rows = map (payload_to_tensor X) (kept_records ps)"
  using assms
proof (induction ps arbitrary: ds ls)
  case Nil
  show ?case by (simp add: kept_records_def)
next
  case (Cons r ps)
  from Cons.prems(1) obtain l where l: "lookup r ''time_to_generate'' = Some l" by auto
  then have sub: "subscript r ''time_to_generate'' = Inr l" by (simp add: subscript_lookup)
  have lab: "label_of r = l" using l by (simp add: label_of_def)
  have p1: "\<forall>r \<in> set ps. lookup r ''time_to_generate'' \<noteq> None" using Cons.prems(1) by simp
  have p2: "\<forall>r \<in> set (kept_records ps). \<exists>t. payload_to_tensor X r = Inr t"
    using Cons.prems(2) by (simp add: kept_records_def)
  show ?case
  proof (cases "l = JNull")
    case True
    then have k: "kept_records (r # ps) = kept_records ps" using lab by (simp add: kept_records_def)
    from Cons.IH[OF p1 p2, of ds ls] show ?thesis
      unfolding k using sub True by simp
  next
    case False
    then have k: "kept_records (r # ps) = r # kept_records ps"
      using lab by (simp add: kept_records_def)
    with Cons.prems(2) obtain t where t: "payload_to_tensor X r = Inr t" by auto
    from encoder_length[OF t] obtain row where row: "t = [row]" by blast
    have g: "bindE (payload_to_tensor X r) tensor_getitem0 = Inr row"
      using t row by (simp add: bindE_def tensor_getitem0_def)
    from Cons.IH[OF p1 p2, of "ds @ [row]" "ls @ [l]"] obtain rows where
      il: "init_loop X ps (ds @ [row], ls @ [l])
             = Inr ((ds @ [row]) @ rows, (ls @ [l]) @ map label_of (kept_records ps))"
      and m: "map (\<lambda>row. Inr [row]) rows = map (payload_to_tensor X) (kept_records ps)"
      by blast
    have "init_loop X (r # ps) (ds, ls)
            = Inr (ds @ (row # rows), ls @ map label_of (kept_records (r # ps)))"
      unfolding k using sub False g il lab by simp
    moreover have "map (\<lambda>row. Inr [row]) (row # rows)
            = map (payload_to_tensor X) (kept_records (r # ps))"
      unfolding k using m t row by simp
    ultimately show ?thesis by blast
  qed
qed

lemma encoded_rows_width:
  assumes "map (\<lambda>row. Inr [row]) rows = map (payload_to_tensor X) rs"
  shows "\<forall>row \<in> set rows. length row = feature_width X"
proof
  fix row assume "row \<in> set rows"
  then obtain i where i: "i < length rows" "rows ! i = row" by (auto simp: in_set_conv_nth)
  have "length rows = length rs" using assms by (metis length_map)
  with i assms have "payload_to_tensor X (rs ! i) = Inr [row]"
    by (metis nth_map)
  from encoder_length[OF this] show "length row = feature_width X" by simp
qed

text \<open>
  Claim C3, as the code has it. When every record of the file has the label field, the
  records with a non-null label can be encoded, their labels make a tensor and at least
  one such record exists, loading succeeds: the records with a null label are skipped, and
  the data and the labels are those of the other records, in the order of the file.
\<close>

theorem dataset_skips_null_labels:
  assumes "\<forall>r \<in> set ps. lookup r ''time_to_generate'' \<noteq> None"
    and "\<forall>r \<in> set (kept_records ps). \<exists>t. payload_to_tensor X r = Inr t"
    and "torch_tensor (JList (map label_of (kept_records ps))) = Inr lt"
    and "kept_records ps \<noteq> []"
  shows "\<exists>ds. KudosDataset_init X (JList ps) = Inr ds
     \<and> map (\<lambda>row. Inr [row]) (data ds) = map (payload_to_tensor X) (kept_records ps)
     \<and> labels ds = lt \<and> mixed_data ds = data ds
     \<and> KudosDataset_len ds = length (kept_records ps)"
proof -
  from init_loop_kept[OF assms(1,2), of "[]" "[]", unfolded append_Nil] obtain rows where
    il: "init_loop X ps ([], []) = Inr (rows, map label_of (kept_records ps))"
    and m: "map (\<lambda>row. Inr [row]) rows = map (payload_to_tensor X) (kept_records ps)"
    by (elim exE conjE) (rule that)
  have len: "length rows = length (kept_records ps)"
    using arg_cong[OF m, of length] by (simp only: length_map)
  with assms(4) have ne: "rows \<noteq> []" by (cases rows) simp_all
  have w: "\<forall>row \<in> set rows. length row = feature_width X"
    by (rule encoded_rows_width[OF m])
  have "hd rows \<in> set rows" using ne by (rule hd_in_set)
  with w have "length (hd rows) = feature_width X" by blast
  with w have same: "\<forall>r \<in> set rows. length r = length (hd rows)" by simp
  have "torch_stack rows =
          (if \<forall>r \<in> set rows. length r = length (hd rows) then Inr rows
           else Inl RuntimeError)"
    unfolding torch_stack_def using ne by (rule if_not_P)
  also have "\<dots> = Inr rows" using same by (rule if_P)
  finally have st: "torch_stack rows = Inr rows" .
  have init: "KudosDataset_init X (JList ps)
          = Inr \<lparr>data = rows, labels = lt, mixed_data = rows\<rparr>"
    unfolding KudosDataset_init_def
    by (simp only: py_iter.simps bindE_def sum.case il prod.case assms(3) st)
  show ?thesis
  proof (intro exI[of _ "\<lparr>data = rows, labels = lt, mixed_data = rows\<rparr>"] conjI)
    show "KudosDataset_init X (JList ps) = Inr \<lparr>data = rows, labels = lt, mixed_data = rows\<rparr>"
      by (rule init)
    show "map (\<lambda>row. Inr [row]) (data \<lparr>data = rows, labels = lt, mixed_data = rows\<rparr>)
            = map (payload_to_tensor X) (kept_records ps)"
      using m by simp
    show "KudosDataset_len \<lparr>data = rows, labels = lt, mixed_data = rows\<rparr>
            = length (kept_records ps)"
      using len by (simp add: KudosDataset_len_def)
  qed simp_all
qed

theorem dataset_skips_null_labels_witness:
  "list_all (\<lambda>r. lookup r ''time_to_generate'' \<noteq> None) [null_label_record, PAYLOAD_EXAMPLE]
   \<and> kept_records [null_label_record, PAYLOAD_EXAMPLE] = [PAYLOAD_EXAMPLE]
   \<and> KudosDataset_init sample_externals (JList [null_label_record, PAYLOAD_EXAMPLE])
        = Inr sample_dataset
   \<and> KudosDataset_len sample_dataset = 1"
proof -
  let ?ps = "[null_label_record, PAYLOAD_EXAMPLE]"
  have h1: "\<forall>r \<in> set ?ps. lookup r ''time_to_generate'' \<noteq> None" by code_simp
  have k: "kept_records ?ps = [PAYLOAD_EXAMPLE]" by code_simp
  have "\<exists>t. payload_to_tensor sample_externals PAYLOAD_EXAMPLE = Inr t"
    by (rule exI[of _ "data sample_dataset"]) code_simp
  then have h2: "\<forall>r \<in> set (kept_records ?ps). \<exists>t. payload_to_tensor sample_externals r = Inr t"
    unfolding k by simp
  have h3: "torch_tensor (JList (map label_of (kept_records ?ps)))
              = Inr (Tensor [Scalar (4450331687927246 / 1000000000000000)])"
    unfolding k by code_simp
  have h4: "kept_records ?ps \<noteq> []" unfolding k by simp
  have init: "KudosDataset_init sample_externals (JList ?ps) = Inr sample_dataset"
    by code_simp
  from dataset_skips_null_labels[OF h1 h2 h3 h4] obtain ds where
    "KudosDataset_init sample_externals (JList ?ps) = Inr ds"
    "KudosDataset_len ds = length (kept_records ?ps)" by blast
  with init k have "KudosDataset_len sample_dataset = 1" by simp
  moreover from h1
  have "list_all (\<lambda>r. lookup r ''time_to_generate'' \<noteq> None) [null_label_record, PAYLOAD_EXAMPLE]"
    by (simp only: list_all_iff)
  ultimately show ?thesis using k init by blast
qed


text \<open>A record without the label field is not skipped: the subscript raises KeyError.\<close>

theorem missing_label_raises:
  "KudosDataset_init sample_externals missing_label_data = Inl KeyError
   \<and> lookup minimal_record ''time_to_generate'' = None"
  by code_simp

end
